theory Spec2Isabelle
  imports Complex_Main "HOL-Library.Multiset" "HOL-Library.AList"
begin

section \<open>Values decoded from the request body\<close>

text \<open>
  The body of a request (\<open>request.data\<close>) and the submitted \<open>answer\<close> in it are what the
  JSON parser decoded: a Python \<open>None\<close>, \<open>bool\<close>, \<open>int\<close>, \<open>float\<close>, \<open>str\<close>, \<open>list\<close> or \<open>dict\<close>.
  A dict is kept as the list of its items in insertion order; its keys are strings, and no
  two items of a decoded dict have the same key.
  A float is kept by its (finite) value; the request parser refuses NaN and the infinities.
  A string is kept as the list of the bytes of its UTF-8 encoding; the encoding is
  injective, so two strings are equal exactly when the lists are.
\<close>

datatype json =
    JNull
  | JBool bool
  | JInt int
  | JFloat rat
  | JStr string
  | JList "json list"
  | JDict "(string \<times> json) list"

text \<open>
  How a request ends without its result: the exceptions that leave a view, which the views
  below do not catch, and \<open>Http400\<close>, the response \<open>Response(errors, status=400)\<close> that a
  view returns when the serializer does not accept the body. Inside \<open>transaction.atomic\<close>
  nothing is written in either case.
\<close>

datatype error =
    Http404
  | Http400
  | NotAuthenticated
  | DoesNotExist
  | AttributeError
  | TypeError
  | IntegrityError
  | ZeroDivisionError

subsection \<open>Python builtins used by the evaluators\<close>

text \<open>
  Library behaviour outside the repository is the record \<open>py\<close>, and every statement below
  holds for all values of it:
  \<^item> \<open>int_of_str\<close>: \<open>int(s)\<close> on a string (signs, blanks, underscores, non-ASCII digits);
    \<open>None\<close> is Python's \<open>ValueError\<close>;
  \<^item> \<open>repr\<close>: \<open>str(v)\<close> on a float, list or dict;
  \<^item> \<open>unicode_lower\<close>: \<open>s.lower()\<close> on a string that has a character outside ASCII
    (a string is the list of the bytes of its UTF-8 encoding);
  \<^item> \<open>integer_of\<close>: what the serializer's \<open>IntegerField\<close> makes of a float or a string;
    \<open>None\<close> is its validation error.
\<close>

record py =
  int_of_str :: "string \<Rightarrow> int option"
  repr :: "json \<Rightarrow> string"
  unicode_lower :: "string \<Rightarrow> string"
  integer_of :: "json \<Rightarrow> int option"

text \<open>\<open>int(a)\<close>: \<open>None\<close> stands for the \<open>ValueError\<close> or \<open>TypeError\<close> that
  \<open>_validate_multiple_choice\<close> catches. A float is truncated towards zero.\<close>

fun py_int :: "py \<Rightarrow> json \<Rightarrow> int option" where
  "py_int P (JInt i) = Some i"
| "py_int P (JBool b) = Some (if b then 1 else 0)"
| "py_int P (JFloat q) = Some (if 0 \<le> q then \<lfloor>q\<rfloor> else \<lceil>q\<rceil>)"
| "py_int P (JStr s) = int_of_str P s"
| "py_int P JNull = None"
| "py_int P (JList xs) = None"
| "py_int P (JDict kvs) = None"

definition digit_char :: "nat \<Rightarrow> char" where
  "digit_char d = char_of (48 + d)"

function str_nat :: "nat \<Rightarrow> string" where
  "str_nat n = (if n < 10 then [digit_char n] else str_nat (n div 10) @ [digit_char (n mod 10)])"
  by pat_completeness auto
termination
  by (relation "measure (\<lambda>n. n)") auto

declare str_nat.simps [simp del]

definition str_int :: "int \<Rightarrow> string" where
  "str_int i = (if i < 0 then CHR ''-'' # str_nat (nat (- i)) else str_nat (nat i))"

text \<open>\<open>str(v)\<close>.\<close>

fun py_str :: "py \<Rightarrow> json \<Rightarrow> string" where
  "py_str P (JStr s) = s"
| "py_str P (JInt i) = str_int i"
| "py_str P (JBool b) = (if b then ''True'' else ''False'')"
| "py_str P JNull = ''None''"
| "py_str P v = repr P v"

text \<open>
  \<open>s.lower()\<close>. On a string of ASCII characters Python lower-cases the letters \<open>A\<close> to \<open>Z\<close>
  and leaves every other character as it is; for any other string the result is that of
  the Unicode lower-casing, \<open>unicode_lower\<close>. A byte is ASCII when its top bit is clear.
\<close>

definition lower_char :: "char \<Rightarrow> char" where
  "lower_char c =
     (case map_of (zip ''ABCDEFGHIJKLMNOPQRSTUVWXYZ'' ''abcdefghijklmnopqrstuvwxyz'') c of
        Some d \<Rightarrow> d
      | None \<Rightarrow> c)"

definition is_ascii :: "char \<Rightarrow> bool" where
  "is_ascii c = (\<not> digit7 c)"

definition lower :: "py \<Rightarrow> string \<Rightarrow> string" where
  "lower P s = (if list_all is_ascii s then map lower_char s else unicode_lower P s)"

text \<open>\<open>v.lower()\<close> on a decoded value: only a \<open>str\<close> has the method.\<close>

fun json_lower :: "py \<Rightarrow> json \<Rightarrow> error + string" where
  "json_lower P (JStr s) = Inr (lower P s)"
| "json_lower P v = Inl AttributeError"

text \<open>
  \<open>QuestionSubmissionSerializer\<close> (\<open>answer = JSONField()\<close>, \<open>lesson = IntegerField()\<close>) on the
  decoded JSON body of a request: the body must be an object; both fields are required and
  not nullable; every other decoded value is a valid \<open>answer\<close>; \<open>lesson\<close> goes through
  \<open>int(str(v))\<close>, which keeps an int, fails on a bool, a list or a dict, and is
  \<open>integer_of\<close> on a float or a string. \<open>None\<close>: \<open>is_valid()\<close> is false. Otherwise the
  validated \<open>answer\<close> and \<open>lesson\<close>.
\<close>

fun integer_field :: "py \<Rightarrow> json \<Rightarrow> int option" where
  "integer_field P (JInt i) = Some i"
| "integer_field P (JFloat q) = integer_of P (JFloat q)"
| "integer_field P (JStr s) = integer_of P (JStr s)"
| "integer_field P v = None"

definition submission_serializer :: "py \<Rightarrow> json \<Rightarrow> (json \<times> int) option" where
  "submission_serializer P data =
     (case data of
        JDict items \<Rightarrow>
          (case map_of items ''answer'' of
             None \<Rightarrow> None
           | Some answer \<Rightarrow>
               (case map_of items ''lesson'' of
                  None \<Rightarrow> None
                | Some lesson \<Rightarrow>
                    if answer = JNull then None
                    else (case integer_field P lesson of
                            None \<Rightarrow> None
                          | Some lesson_id \<Rightarrow> Some (answer, lesson_id))))
      | _ \<Rightarrow> None)"

text \<open>\<open>v in valid\<close> for a list of strings: \<open>==\<close> between a \<open>str\<close> and a value of another
  type is \<open>False\<close>.\<close>

fun json_in_strs :: "json \<Rightarrow> string list \<Rightarrow> bool" where
  "json_in_strs (JStr s) valid = (s \<in> set valid)"
| "json_in_strs v valid = False"

section \<open>The catalogue: questions and their answer keys\<close>

datatype question_type = MULTIPLE_CHOICE | FILL_BLANK | DRAG_DROP | REORDER | OTHER_TYPE

record question =
  q_type :: question_type
  q_jems :: int
  q_xp_available :: int
  q_explanation :: string

text \<open>\<open>QuestionChoice\<close> rows of a question, in the order the database returns them.\<close>

record question_choice =
  ch_id :: int
  ch_is_correct :: bool

record multiple_choice_question =
  is_multiple_selection :: bool
  choices :: "question_choice list"

record fill_blank_answer =
  blank_index :: int
  fba_text :: string

record fill_blank_question =
  case_sensitive :: bool
  answers :: "fill_blank_answer list"

record drag_drop_mapping =
  target :: int
  draggable_item :: int

record drag_drop_question =
  mappings :: "drag_drop_mapping list"

text \<open>\<open>reorder_items\<close>: the ids of the \<open>ReorderItem\<close> rows as
  \<open>order_by("correct_position")\<close> returns them.\<close>

record reorder_question =
  reorder_items :: "int list"

record lesson =
  l_id :: int
  l_xp_available :: int
  l_is_published :: bool
  l_course :: int

record slide =
  s_id :: int
  s_lesson :: int
  s_is_required :: bool

record question_slide =
  qs_question :: int

text \<open>Tables that are only looked up by primary key are maps; tables that the views
  filter and count (\<open>lessons\<close>, \<open>slides\<close>) are the lists of their rows.\<close>

record catalog =
  questions :: "int \<rightharpoonup> question"
  mc_questions :: "int \<rightharpoonup> multiple_choice_question"
  fb_questions :: "int \<rightharpoonup> fill_blank_question"
  dd_questions :: "int \<rightharpoonup> drag_drop_question"
  ro_questions :: "int \<rightharpoonup> reorder_question"
  lessons :: "lesson list"
  slides :: "slide list"
  question_slides :: "int \<rightharpoonup> question_slide"

definition get_correct_choices :: "multiple_choice_question \<Rightarrow> int list" where
  "get_correct_choices q = map ch_id (filter ch_is_correct (choices q))"

definition get_correct_answers :: "fill_blank_question \<Rightarrow> (int \<rightharpoonup> string list)" where
  "get_correct_answers q =
     fold (\<lambda>a d. d(blank_index a \<mapsto>
                      (case d (blank_index a) of None \<Rightarrow> [] | Some ts \<Rightarrow> ts) @ [fba_text a]))
          (answers q) Map.empty"

definition get_correct_mappings :: "drag_drop_question \<Rightarrow> (string \<rightharpoonup> string list)" where
  "get_correct_mappings q =
     fold (\<lambda>m d. d(str_int (target m) \<mapsto>
                      (case d (str_int (target m)) of None \<Rightarrow> [] | Some ts \<Rightarrow> ts)
                      @ [str_int (draggable_item m)]))
          (mappings q) Map.empty"

definition get_correct_order :: "reorder_question \<Rightarrow> string list" where
  "get_correct_order q = map str_int (reorder_items q)"

section \<open>Answer evaluation (\<open>questions/views.py\<close>)\<close>

text \<open>
  The feedback is a Python dict: its items in insertion order. \<open>feedback[k] = v\<close> is
  \<open>AList.update k v\<close>, which replaces the value of a key in place and appends a new key.
\<close>

type_synonym feedback = "(string \<times> json) list"

definition feedback0 :: feedback where
  "feedback0 = [(''correct'', JBool False), (''message'', JStr [])]"

definition set_message :: "string \<Rightarrow> feedback \<Rightarrow> feedback" where
  "set_message m fb = AList.update ''message'' (JStr m) fb"

text \<open>The branch shared by the four evaluators once \<open>is_correct\<close> is \<open>True\<close>.\<close>

definition correct_feedback :: "string \<Rightarrow> string \<Rightarrow> feedback \<Rightarrow> feedback" where
  "correct_feedback m explanation fb =
     (let fb1 = AList.update ''correct'' (JBool True) fb;
          fb2 = set_message m fb1
      in if explanation \<noteq> [] then AList.update ''explanation'' (JStr explanation) fb2 else fb2)"

definition validate_multiple_choice ::
  "py \<Rightarrow> string \<Rightarrow> multiple_choice_question \<Rightarrow> json \<Rightarrow> bool \<times> feedback" where
  "validate_multiple_choice P explanation question answer =
     (case answer of
        JList xs \<Rightarrow>
          if \<not> is_multiple_selection question \<and> length xs > 1
          then (False, set_message ''Only one answer allowed for this question'' feedback0)
          else (case those (map (py_int P) xs) of
                  None \<Rightarrow> (False, set_message ''Invalid choice IDs'' feedback0)
                | Some ids \<Rightarrow>
                    let correct_answers = get_correct_choices question;
                        is_correct = (sort ids = sort correct_answers)
                    in if is_correct
                       then (True, correct_feedback ''Correct!'' explanation feedback0)
                       else (False, set_message ''Incorrect. Try again!'' feedback0))
      | _ \<Rightarrow> (False, set_message ''Answer must be a list of choice IDs'' feedback0))"

text \<open>Lines 311 to 316: is one submitted blank right?\<close>

definition is_blank_correct :: "py \<Rightarrow> bool \<Rightarrow> json \<Rightarrow> string list \<Rightarrow> error + bool" where
  "is_blank_correct P cs user_answer valid_answers =
     (if cs then Inr (json_in_strs user_answer valid_answers)
      else (case json_lower P user_answer of
              Inl e \<Rightarrow> Inl e
            | Inr l \<Rightarrow> Inr (l \<in> set (map (lower P) valid_answers))))"

text \<open>What one turn of a loop body does: raise, return from the function, or go on.\<close>

datatype ('r, 'a) flow = Raise error | Return 'r | Next 'a

fun fill_blank_loop ::
  "py \<Rightarrow> bool \<Rightarrow> (int \<rightharpoonup> string list) \<Rightarrow> (string \<times> json) list \<Rightarrow> int list
     \<Rightarrow> (bool \<times> feedback, int list) flow" where
  "fill_blank_loop P cs correct_answers [] incorrect_blanks = Next incorrect_blanks"
| "fill_blank_loop P cs correct_answers ((blank_idx_str, user_answer) # rest) incorrect_blanks =
     (case int_of_str P blank_idx_str of
        None \<Rightarrow>
          Return (False, set_message (''Invalid blank index format: '' @ blank_idx_str) feedback0)
      | Some blank_idx \<Rightarrow>
          (case correct_answers blank_idx of
             None \<Rightarrow>
               Return (False, set_message (''Invalid blank index: '' @ str_int blank_idx) feedback0)
           | Some valid_answers \<Rightarrow>
               (case is_blank_correct P cs user_answer valid_answers of
                  Inl e \<Rightarrow> Raise e
                | Inr ok \<Rightarrow>
                    fill_blank_loop P cs correct_answers rest
                      (if ok then incorrect_blanks else incorrect_blanks @ [blank_idx]))))"

definition validate_fill_blank ::
  "py \<Rightarrow> string \<Rightarrow> fill_blank_question \<Rightarrow> json \<Rightarrow> error + bool \<times> feedback" where
  "validate_fill_blank P explanation question answer =
     (case answer of
        JDict items \<Rightarrow>
          (case fill_blank_loop P (case_sensitive question) (get_correct_answers question) items [] of
             Raise e \<Rightarrow> Inl e
           | Return r \<Rightarrow> Inr r
           | Next incorrect_blanks \<Rightarrow>
               if length incorrect_blanks = 0
               then Inr (True, correct_feedback ''Correct!'' explanation feedback0)
               else Inr (False, AList.update ''incorrect_blanks'' (JList (map JInt incorrect_blanks))
                                  (set_message ''Incorrect. Try again!'' feedback0)))
      | _ \<Rightarrow>
          Inr (False,
               set_message ''Answer must be a dictionary mapping blank indices to answers'' feedback0))"

text \<open>The inner loop with its \<open>break\<close> appends the target once, if some item is not valid.\<close>

fun drag_drop_loop ::
  "py \<Rightarrow> (string \<rightharpoonup> string list) \<Rightarrow> (string \<times> json) list \<Rightarrow> string list
     \<Rightarrow> (bool \<times> feedback, string list) flow" where
  "drag_drop_loop P correct_mappings [] incorrect_targets = Next incorrect_targets"
| "drag_drop_loop P correct_mappings ((target_idx, item_indices) # rest) incorrect_targets =
     (case correct_mappings target_idx of
        None \<Rightarrow> Return (False, set_message (''Invalid target ID: '' @ target_idx) feedback0)
      | Some valid_items \<Rightarrow>
          (let item_list = (case item_indices of JList xs \<Rightarrow> xs | _ \<Rightarrow> [item_indices]);
               item_strs = map (py_str P) item_list
           in drag_drop_loop P correct_mappings rest
                (if list_ex (\<lambda>item_idx. item_idx \<notin> set valid_items) item_strs
                 then incorrect_targets @ [target_idx] else incorrect_targets)))"

definition validate_drag_drop ::
  "py \<Rightarrow> string \<Rightarrow> drag_drop_question \<Rightarrow> json \<Rightarrow> error + bool \<times> feedback" where
  "validate_drag_drop P explanation question answer =
     (case answer of
        JDict items \<Rightarrow>
          (case drag_drop_loop P (get_correct_mappings question) items [] of
             Raise e \<Rightarrow> Inl e
           | Return r \<Rightarrow> Inr r
           | Next incorrect_targets \<Rightarrow>
               if length incorrect_targets = 0
               then Inr (True, correct_feedback ''Correct!'' explanation feedback0)
               else Inr (False, AList.update ''incorrect_targets'' (JList (map JStr incorrect_targets))
                                  (set_message ''Incorrect. Try again!'' feedback0)))
      | _ \<Rightarrow>
          Inr (False,
               set_message ''Answer must be a dictionary mapping target IDs to draggable item IDs''
                 feedback0))"

definition validate_reorder ::
  "py \<Rightarrow> string \<Rightarrow> reorder_question \<Rightarrow> json \<Rightarrow> bool \<times> feedback" where
  "validate_reorder P explanation question answer =
     (case answer of
        JList xs \<Rightarrow>
          if map (py_str P) xs = get_correct_order question
          then (True, correct_feedback ''Correct sequence!'' explanation feedback0)
          else (False, set_message ''Incorrect sequence. Try again!'' feedback0)
      | _ \<Rightarrow>
          (False, set_message ''Answer must be a list of item IDs in the correct order'' feedback0))"

text \<open>\<open>_evaluate_answer\<close>: \<open>objects.get\<close> raises \<open>DoesNotExist\<close> when the row of the
  specific question model is missing.\<close>

definition evaluate_answer ::
  "py \<Rightarrow> catalog \<Rightarrow> int \<Rightarrow> question \<Rightarrow> json \<Rightarrow> error + bool \<times> feedback" where
  "evaluate_answer P cat qid question answer =
     (case q_type question of
        MULTIPLE_CHOICE \<Rightarrow>
          (case mc_questions cat qid of
             None \<Rightarrow> Inl DoesNotExist
           | Some sq \<Rightarrow> Inr (validate_multiple_choice P (q_explanation question) sq answer))
      | FILL_BLANK \<Rightarrow>
          (case fb_questions cat qid of
             None \<Rightarrow> Inl DoesNotExist
           | Some sq \<Rightarrow> validate_fill_blank P (q_explanation question) sq answer)
      | DRAG_DROP \<Rightarrow>
          (case dd_questions cat qid of
             None \<Rightarrow> Inl DoesNotExist
           | Some sq \<Rightarrow> validate_drag_drop P (q_explanation question) sq answer)
      | REORDER \<Rightarrow>
          (case ro_questions cat qid of
             None \<Rightarrow> Inl DoesNotExist
           | Some sq \<Rightarrow> Inr (validate_reorder P (q_explanation question) sq answer))
      | OTHER_TYPE \<Rightarrow> Inr (False, [(''detail'', JStr ''Unsupported question type.'')]))"

section \<open>The tables the pipeline writes\<close>

text \<open>
  Timestamps are seconds since the epoch; \<open>timezone.now()\<close> is an aware datetime in UTC, so
  \<open>.date()\<close> of it is the UTC day \<open>date_of\<close>. The auto-assigned \<open>id\<close> and \<open>created_at\<close>
  columns are left out, and so are the range checks a database backend puts on the
  integer columns.
\<close>

definition date_of :: "int \<Rightarrow> int" where
  "date_of t = t div 86400"

record user_question_attempt =
  uqa_user :: int
  uqa_question :: int
  uqa_lesson :: int
  uqa_user_answer :: json
  uqa_is_correct :: bool
  uqa_attempt_number :: int
  uqa_jems_earned :: int

text \<open>A row of \<open>UserXP\<close> or of \<open>UserJem\<close> (the two models have the same columns).\<close>

record reward_transaction =
  tx_user :: int
  tx_amount :: int
  tx_source_type :: string
  tx_content_type :: "string option"
  tx_object_id :: "int option"

record custom_user =
  u_jems :: int
  u_total_xp :: int
  u_streak_days :: int
  u_last_activity :: "int option"

record user_slide_progress =
  usp_user :: int
  usp_slide :: int
  usp_is_completed :: bool

record user_lesson_progress =
  lp_completion_percentage :: rat
  lp_xp_earned :: int
  lp_started_at :: int
  lp_completed_date :: "int option"

record user_course_enrollment =
  e_completion_percentage :: rat
  e_is_completed :: bool

record lesson_review =
  r_user :: int
  r_lesson :: int
  r_score :: int
  r_total_possible :: int
  r_completion_percentage :: rat
  r_completion_time :: "int option"

record lesson_review_question_attempt =
  ra_review :: int
  ra_question_slide :: int
  ra_user_answer :: json
  ra_is_correct :: bool
  ra_xp_earned :: int

text \<open>\<open>lesson_progress\<close> and \<open>enrollments\<close> are keyed by their \<open>unique_together\<close> pair
  (user, lesson) and (user, course); \<open>reviews\<close> by primary key.\<close>

record store =
  users :: "int \<rightharpoonup> custom_user"
  attempts :: "user_question_attempt list"
  xp_transactions :: "reward_transaction list"
  jem_transactions :: "reward_transaction list"
  slide_progress :: "user_slide_progress list"
  lesson_progress :: "int \<times> int \<rightharpoonup> user_lesson_progress"
  enrollments :: "int \<times> int \<rightharpoonup> user_course_enrollment"
  reviews :: "int \<rightharpoonup> lesson_review"
  review_attempts :: "lesson_review_question_attempt list"

section \<open>Question submission (\<open>QuestionSubmitView\<close>)\<close>

text \<open>Lines 127 to 129: the attempts of this user on this question in this lesson.\<close>

definition attempt_count :: "store \<Rightarrow> int \<Rightarrow> int \<Rightarrow> int \<Rightarrow> int" where
  "attempt_count st uid qid lid =
     int (length (filter (\<lambda>a. uqa_user a = uid \<and> uqa_question a = qid \<and> uqa_lesson a = lid)
                         (attempts st)))"

text \<open>Lines 132 to 145: \<open>(jems_earned, xp_earned)\<close>. Python's \<open>//\<close> is floor division, as
  \<open>div\<close> on \<open>int\<close> is.\<close>

definition earned :: "bool \<Rightarrow> int \<Rightarrow> question \<Rightarrow> int \<times> int" where
  "earned is_correct n question =
     (if is_correct
      then (if n = 0 then (q_jems question, q_xp_available question)
            else (max 1 (q_jems question div (n + 1)), max 10 (q_xp_available question div (n + 1))))
      else (0, 0))"

text \<open>\<open>_update_user_streak\<close>; \<open>today\<close> is what \<open>timezone.localdate()\<close> returns, as a day
  number.\<close>

definition update_user_streak :: "int \<Rightarrow> custom_user \<Rightarrow> custom_user" where
  "update_user_streak today user =
     (case u_last_activity user of
        None \<Rightarrow> user\<lparr>u_streak_days := 1\<rparr>
      | Some last_activity \<Rightarrow>
          (let last_activity_date = date_of last_activity
           in if today - last_activity_date = 1
              then user\<lparr>u_streak_days := u_streak_days user + 1\<rparr>
              else if today - last_activity_date > 1
              then user\<lparr>u_streak_days := 1\<rparr>
              else user))"

text \<open>Lines 159 to 195 of \<open>create\<close>, the branch \<open>if is_correct\<close>: the two ledger rows, the
  counters of the user, \<open>last_activity\<close>, the save, then the streak and its save.\<close>

definition update_gamification ::
  "int \<Rightarrow> int \<Rightarrow> int \<Rightarrow> int \<Rightarrow> int \<Rightarrow> int \<Rightarrow> custom_user \<Rightarrow> store \<Rightarrow> custom_user \<times> store" where
  "update_gamification now today uid qid xp_earned jems_earned user st =
     (let st1 = (if xp_earned > 0
                 then st\<lparr>xp_transactions := xp_transactions st @
                        [\<lparr>tx_user = uid, tx_amount = xp_earned, tx_source_type = ''question'',
                          tx_content_type = Some ''question'', tx_object_id = Some qid\<rparr>]\<rparr>
                 else st);
          user1 = (if xp_earned > 0 then user\<lparr>u_total_xp := u_total_xp user + xp_earned\<rparr>
                   else user);
          st2 = (if jems_earned > 0
                 then st1\<lparr>jem_transactions := jem_transactions st1 @
                        [\<lparr>tx_user = uid, tx_amount = jems_earned, tx_source_type = ''question'',
                          tx_content_type = Some ''question'', tx_object_id = Some qid\<rparr>]\<rparr>
                 else st1);
          user2 = (if jems_earned > 0 then user1\<lparr>u_jems := u_jems user1 + jems_earned\<rparr>
                   else user1);
          user3 = user2\<lparr>u_last_activity := Some now\<rparr>;
          st3 = st2\<lparr>users := (users st2)(uid \<mapsto> user3)\<rparr>;
          user4 = update_user_streak today user3;
          st4 = st3\<lparr>users := (users st3)(uid \<mapsto> user4)\<rparr>
      in (user4, st4))"

record response =
  resp_attempt :: user_question_attempt
  resp_feedback :: feedback
  resp_xp_earned :: int
  resp_jems_earned :: int
  resp_total_xp :: int
  resp_total_jems :: int
  resp_streak_days :: int

text \<open>
  \<open>create\<close>. \<open>uid\<close> is \<open>request.user\<close>, \<open>data\<close> the decoded body of the request, \<open>now\<close> the
  value of \<open>timezone.now()\<close> at line 189 and \<open>today\<close> that of \<open>timezone.localdate()\<close> at
  line 427. Lines 114 to 118: a body that the serializer does not accept is answered with
  HTTP 400 before anything is evaluated or written. \<open>Inl\<close>: the response is an error, or
  the exception leaves the atomic block, and the store is as before. The foreign key of the
  new attempt is checked by the database (\<open>IntegrityError\<close>).
\<close>

definition create ::
  "py \<Rightarrow> catalog \<Rightarrow> int \<Rightarrow> int \<Rightarrow> store \<Rightarrow> int \<Rightarrow> int \<Rightarrow> json \<Rightarrow> error + response \<times> store" where
  "create P cat now today st uid question_id data =
     (case users st uid of
        None \<Rightarrow> Inl NotAuthenticated
      | Some user \<Rightarrow>
     (case questions cat question_id of
        None \<Rightarrow> Inl Http404
      | Some question \<Rightarrow>
     (case submission_serializer P data of
        None \<Rightarrow> Inl Http400
      | Some (answer, lesson_id) \<Rightarrow>
     (case evaluate_answer P cat question_id question answer of
        Inl e \<Rightarrow> Inl e
      | Inr (is_correct, feedback) \<Rightarrow>
          if \<not> list_ex (\<lambda>l. l_id l = lesson_id) (lessons cat) then Inl IntegrityError
          else
            (let n = attempt_count st uid question_id lesson_id;
                 (jems_earned, xp_earned) = earned is_correct n question;
                 attempt = \<lparr>uqa_user = uid, uqa_question = question_id, uqa_lesson = lesson_id,
                            uqa_user_answer = answer, uqa_is_correct = is_correct,
                            uqa_attempt_number = n + 1, uqa_jems_earned = jems_earned\<rparr>;
                 st1 = st\<lparr>attempts := attempts st @ [attempt]\<rparr>;
                 (user', st') = (if is_correct
                                 then update_gamification now today uid question_id
                                        xp_earned jems_earned user st1
                                 else (user, st1))
             in Inr (\<lparr>resp_attempt = attempt, resp_feedback = feedback,
                       resp_xp_earned = xp_earned, resp_jems_earned = jems_earned,
                       resp_total_xp = u_total_xp user', resp_total_jems = u_jems user',
                       resp_streak_days = u_streak_days user'\<rparr>, st'))))))"

section \<open>Validation failures of the evaluators\<close>

text \<open>
  The format checks of the four evaluators, read off their early returns: the message of
  the check that a payload fails, \<open>None\<close> for a payload that passes them all.

  \<open>_validate_multiple_choice\<close> (lines 241 to 255): the payload is not a list; a question that
  is not \<open>is_multiple_selection\<close> is given more than one element; \<open>int()\<close> fails on an
  element.
\<close>

definition multiple_choice_format_error ::
  "py \<Rightarrow> multiple_choice_question \<Rightarrow> json \<Rightarrow> string option" where
  "multiple_choice_format_error P question answer =
     (case answer of
        JList xs \<Rightarrow>
          if \<not> is_multiple_selection question \<and> 1 < length xs
          then Some ''Only one answer allowed for this question''
          else if list_ex (\<lambda>a. py_int P a = None) xs then Some ''Invalid choice IDs''
          else None
      | _ \<Rightarrow> Some ''Answer must be a list of choice IDs'')"

text \<open>
  \<open>_validate_fill_blank\<close> (lines 277 to 302): the payload is not a dict, or it has a key that
  is not an integer or not a blank index of the answer key. The message is that of the
  first such key. The entries before it are compared first, and without \<open>case_sensitive\<close>
  the comparison raises on a value that is not a string: then no message is returned.
\<close>

definition blank_key_error :: "py \<Rightarrow> (int \<rightharpoonup> string list) \<Rightarrow> string \<Rightarrow> string option" where
  "blank_key_error P correct_answers blank_idx_str =
     (case int_of_str P blank_idx_str of
        None \<Rightarrow> Some (''Invalid blank index format: '' @ blank_idx_str)
      | Some blank_idx \<Rightarrow>
          (case correct_answers blank_idx of
             None \<Rightarrow> Some (''Invalid blank index: '' @ str_int blank_idx)
           | Some valid_answers \<Rightarrow> None))"

fun is_str :: "json \<Rightarrow> bool" where
  "is_str (JStr s) = True"
| "is_str v = False"

definition fill_blank_format_error :: "py \<Rightarrow> fill_blank_question \<Rightarrow> json \<Rightarrow> string option" where
  "fill_blank_format_error P question answer =
     (case answer of
        JDict items \<Rightarrow>
          (let key_ok = (\<lambda>kv. blank_key_error P (get_correct_answers question) (fst kv) = None)
           in case dropWhile key_ok items of
                [] \<Rightarrow> None
              | kv # rest \<Rightarrow>
                  if case_sensitive question \<or> list_all (\<lambda>kv. is_str (snd kv)) (takeWhile key_ok items)
                  then blank_key_error P (get_correct_answers question) (fst kv)
                  else None)
      | _ \<Rightarrow> Some ''Answer must be a dictionary mapping blank indices to answers'')"

text \<open>\<open>_validate_drag_drop\<close> (lines 339 to 356): the payload is not a dict, or it has a key that
  is not a target of the answer key; the message names the first such key.\<close>

definition drag_drop_format_error :: "drag_drop_question \<Rightarrow> json \<Rightarrow> string option" where
  "drag_drop_format_error question answer =
     (case answer of
        JDict items \<Rightarrow>
          (case dropWhile (\<lambda>kv. get_correct_mappings question (fst kv) \<noteq> None) items of
             [] \<Rightarrow> None
           | kv # rest \<Rightarrow> Some (''Invalid target ID: '' @ fst kv))
      | _ \<Rightarrow> Some ''Answer must be a dictionary mapping target IDs to draggable item IDs'')"

text \<open>\<open>_validate_reorder\<close> (lines 395 to 399): the payload is not a list.\<close>

definition reorder_format_error :: "json \<Rightarrow> string option" where
  "reorder_format_error answer =
     (case answer of
        JList xs \<Rightarrow> None
      | _ \<Rightarrow> Some ''Answer must be a list of item IDs in the correct order'')"

text \<open>The format check that \<open>_evaluate_answer\<close> reaches for a question of the catalogue.\<close>

definition format_error :: "py \<Rightarrow> catalog \<Rightarrow> int \<Rightarrow> question \<Rightarrow> json \<Rightarrow> string option" where
  "format_error P cat qid question answer =
     (case q_type question of
        MULTIPLE_CHOICE \<Rightarrow>
          (case mc_questions cat qid of
             None \<Rightarrow> None
           | Some sq \<Rightarrow> multiple_choice_format_error P sq answer)
      | FILL_BLANK \<Rightarrow>
          (case fb_questions cat qid of
             None \<Rightarrow> None
           | Some sq \<Rightarrow> fill_blank_format_error P sq answer)
      | DRAG_DROP \<Rightarrow>
          (case dd_questions cat qid of
             None \<Rightarrow> None
           | Some sq \<Rightarrow> drag_drop_format_error sq answer)
      | REORDER \<Rightarrow>
          (case ro_questions cat qid of
             None \<Rightarrow> None
           | Some sq \<Rightarrow> reorder_format_error answer)
      | OTHER_TYPE \<Rightarrow> None)"

text \<open>The messages of a wrong answer, as opposed to a payload of the wrong format.\<close>

definition wrong_answer_messages :: "string set" where
  "wrong_answer_messages = {''Incorrect. Try again!'', ''Incorrect sequence. Try again!''}"

section \<open>Lesson progress and completion (\<open>lessons/views.py\<close>)\<close>

text \<open>
  Percentages are Python floats in the source; they are kept as rationals here. For the
  slide and lesson counts of a request \<open>completed / total * 100 >= 100\<close> holds in floating
  point exactly when it holds for the rationals. Each view is given one clock reading
  \<open>now\<close>.
\<close>

text \<open>\<open>Slide.objects.filter(lesson=lesson, is_required=True).count()\<close>.\<close>

definition required_slides :: "catalog \<Rightarrow> int \<Rightarrow> int" where
  "required_slides cat lid =
     int (length (filter (\<lambda>s. s_lesson s = lid \<and> s_is_required s) (slides cat)))"

text \<open>\<open>UserSlideProgress.objects.filter(user=..., slide__lesson=lesson,
  slide__is_required=True, is_completed=True).count()\<close>.\<close>

definition completed_slides :: "catalog \<Rightarrow> store \<Rightarrow> int \<Rightarrow> int \<Rightarrow> int" where
  "completed_slides cat st uid lid =
     int (length (filter (\<lambda>p. usp_user p = uid \<and> usp_is_completed p
                                \<and> list_ex (\<lambda>s. s_id s = usp_slide p \<and> s_lesson s = lid
                                                \<and> s_is_required s) (slides cat))
                         (slide_progress st)))"

text \<open>A \<open>UserXP\<close> row with \<open>content_type_id=None\<close>, as the lesson views write it.\<close>

definition xp_row :: "int \<Rightarrow> int \<Rightarrow> string \<Rightarrow> int \<Rightarrow> reward_transaction" where
  "xp_row uid amount source oid =
     \<lparr>tx_user = uid, tx_amount = amount, tx_source_type = source, tx_content_type = None,
      tx_object_id = Some oid\<rparr>"

text \<open>\<open>user.total_xp = F("total_xp") + amount; user.save(update_fields=["total_xp"])\<close>: an
  update of the row of the authenticated user in the database.\<close>

definition add_total_xp :: "int \<Rightarrow> int \<Rightarrow> store \<Rightarrow> store" where
  "add_total_xp uid amount st =
     (case users st uid of
        None \<Rightarrow> st
      | Some u \<Rightarrow> st\<lparr>users := (users st)(uid \<mapsto> u\<lparr>u_total_xp := u_total_xp u + amount\<rparr>)\<rparr>)"

text \<open>\<open>UserSlideProgressViewSet._update_lesson_progress\<close>, called with \<open>slide.lesson\<close>
  after a slide progress has been saved.\<close>

definition update_lesson_progress :: "catalog \<Rightarrow> int \<Rightarrow> store \<Rightarrow> int \<Rightarrow> lesson \<Rightarrow> store" where
  "update_lesson_progress cat now st uid lesson =
     (let total_slides = required_slides cat (l_id lesson)
      in if total_slides = 0 then st
         else
           (let completed = completed_slides cat st uid (l_id lesson);
                completion_percentage = (of_int completed / of_int total_slides) * (100 :: rat);
                created = (case lesson_progress st (uid, l_id lesson) of
                             Some p \<Rightarrow> p
                           | None \<Rightarrow> \<lparr>lp_completion_percentage = 0, lp_xp_earned = 0,
                                       lp_started_at = now, lp_completed_date = None\<rparr>);
                p1 = created\<lparr>lp_completion_percentage := completion_percentage\<rparr>
            in if completion_percentage \<ge> 100 \<and> lp_completed_date p1 = None
               then
                 (let p2 = p1\<lparr>lp_completed_date := Some now\<rparr>
                  in if lp_xp_earned p2 < l_xp_available lesson
                     then
                       (let xp_to_award = l_xp_available lesson - lp_xp_earned p2;
                            p3 = p2\<lparr>lp_xp_earned := lp_xp_earned p2 + xp_to_award\<rparr>
                        in st\<lparr>xp_transactions := xp_transactions st @
                                 [xp_row uid xp_to_award ''lesson'' (l_id lesson)],
                               lesson_progress := (lesson_progress st)((uid, l_id lesson) \<mapsto> p3)\<rparr>)
                     else st\<lparr>lesson_progress := (lesson_progress st)((uid, l_id lesson) \<mapsto> p2)\<rparr>)
               else st\<lparr>lesson_progress := (lesson_progress st)((uid, l_id lesson) \<mapsto> p1)\<rparr>))"

text \<open>\<open>LessonCompleteView._update_course_progress\<close>. The completed lessons of the course
  are counted through the lessons of the catalogue, one progress row per (user, lesson).\<close>

definition update_course_progress :: "catalog \<Rightarrow> store \<Rightarrow> int \<Rightarrow> int \<Rightarrow> store" where
  "update_course_progress cat st uid course =
     (case enrollments st (uid, course) of
        None \<Rightarrow> st
      | Some enrollment \<Rightarrow>
          (let total_lessons =
                 int (length (filter (\<lambda>l. l_course l = course \<and> l_is_published l) (lessons cat)))
           in if total_lessons = 0 then st
              else
                (let completed_lessons =
                       int (length (filter (\<lambda>l. l_course l = course
                              \<and> (case lesson_progress st (uid, l_id l) of
                                    None \<Rightarrow> False
                                  | Some p \<Rightarrow> lp_completed_date p \<noteq> None)) (lessons cat)));
                     completion_percentage =
                       (of_int completed_lessons / of_int total_lessons) * (100 :: rat);
                     e1 = enrollment\<lparr>e_completion_percentage := completion_percentage\<rparr>
                 in if completion_percentage \<ge> 100 \<and> \<not> e_is_completed e1
                    then
                      (let course_xp = 500;
                           st1 = st\<lparr>xp_transactions := xp_transactions st @
                                      [xp_row uid course_xp ''course'' course]\<rparr>;
                           st2 = add_total_xp uid course_xp st1
                       in st2\<lparr>enrollments :=
                                (enrollments st2)((uid, course) \<mapsto> e1\<lparr>e_is_completed := True\<rparr>)\<rparr>)
                    else st\<lparr>enrollments := (enrollments st)((uid, course) \<mapsto> e1)\<rparr>)))"

text \<open>\<open>LessonCompleteView.update\<close>: the HTTP status of the response and the store.
  \<open>_update_course_progress\<close> runs before \<open>progress.save()\<close>, as in the source.\<close>

definition lesson_complete :: "catalog \<Rightarrow> int \<Rightarrow> store \<Rightarrow> int \<Rightarrow> int \<Rightarrow> nat \<times> store" where
  "lesson_complete cat now st uid lesson_id =
     (case find (\<lambda>l. l_id l = lesson_id \<and> l_is_published l) (lessons cat) of
        None \<Rightarrow> (404, st)
      | Some lesson \<Rightarrow>
          (case lesson_progress st (uid, lesson_id) of
             None \<Rightarrow> (400, st)
           | Some progress \<Rightarrow>
               if completed_slides cat st uid lesson_id < required_slides cat lesson_id
               then (400, st)
               else if lp_completed_date progress = None
               then
                 (let p1 = progress\<lparr>lp_completed_date := Some now,
                                     lp_completion_percentage := 100\<rparr>;
                      xp_to_award = l_xp_available lesson - lp_xp_earned p1;
                      awarding = (lp_xp_earned p1 < l_xp_available lesson);
                      p2 = (if awarding then p1\<lparr>lp_xp_earned := lp_xp_earned p1 + xp_to_award\<rparr>
                            else p1);
                      st1 = (if awarding
                             then add_total_xp uid xp_to_award
                                    (st\<lparr>xp_transactions := xp_transactions st @
                                          [xp_row uid xp_to_award ''lesson'' lesson_id]\<rparr>)
                             else st);
                      st2 = update_course_progress cat st1 uid (l_course lesson)
                  in (200, st2\<lparr>lesson_progress := (lesson_progress st2)((uid, lesson_id) \<mapsto> p2)\<rparr>))
               else (200, st)))"

section \<open>Lesson reviews (\<open>LessonReviewQuestionViewSet.submit_answer\<close>)\<close>

text \<open>The characters of a string: in UTF-8 a character is a byte that is not a
  continuation byte (\<open>10xxxxxx\<close>), with the continuation bytes that follow it.\<close>

definition is_continuation :: "char \<Rightarrow> bool" where
  "is_continuation c = (digit7 c \<and> \<not> digit6 c)"

function characters :: "string \<Rightarrow> string list" where
  "characters [] = []"
| "characters (c # cs) = (c # takeWhile is_continuation cs) # characters (dropWhile is_continuation cs)"
  by pat_completeness auto
termination
  by (relation "measure length") (simp_all add: length_dropWhile_le less_Suc_eq_le)

text \<open>Iterating a decoded value: a list gives its elements, a dict its keys, a string its
  characters; anything else is not iterable.\<close>

fun py_iter :: "json \<Rightarrow> error + json list" where
  "py_iter (JList xs) = Inr xs"
| "py_iter (JDict kvs) = Inr (map (\<lambda>kv. JStr (fst kv)) kvs)"
| "py_iter (JStr s) = Inr (map JStr (characters s))"
| "py_iter v = Inl TypeError"

fun hashable :: "json \<Rightarrow> bool" where
  "hashable (JList xs) = False"
| "hashable (JDict kvs) = False"
| "hashable v = True"

text \<open>Python's \<open>==\<close> between a decoded value and an \<open>int\<close>.\<close>

fun json_eq_int :: "json \<Rightarrow> int \<Rightarrow> bool" where
  "json_eq_int (JInt i) c = (i = c)"
| "json_eq_int (JBool b) c = ((if b then 1 else 0) = c)"
| "json_eq_int (JFloat q) c = (q = of_int c)"
| "json_eq_int v c = False"

text \<open>\<open>set(user_answer) == correct_choices\<close>.\<close>

definition set_equals_choices :: "json \<Rightarrow> int list \<Rightarrow> error + bool" where
  "set_equals_choices user_answer correct =
     (case py_iter user_answer of
        Inl e \<Rightarrow> Inl e
      | Inr elems \<Rightarrow>
          if \<not> list_all hashable elems then Inl TypeError
          else Inr (list_all (\<lambda>e. list_ex (json_eq_int e) correct) elems
                    \<and> list_all (\<lambda>c. list_ex (\<lambda>e. json_eq_int e c) elems) correct))"

text \<open>The loop over \<open>enumerate(user_answer)\<close> of lines 467 to 471, from index \<open>idx\<close> on.\<close>

fun review_blanks ::
  "py \<Rightarrow> (int \<rightharpoonup> string list) \<Rightarrow> int \<Rightarrow> json list \<Rightarrow> error + bool" where
  "review_blanks P correct_answers idx [] = Inr True"
| "review_blanks P correct_answers idx (answer # rest) =
     (case correct_answers idx of
        None \<Rightarrow> Inr False
      | Some valid \<Rightarrow>
          (case json_lower P answer of
             Inl e \<Rightarrow> Inl e
           | Inr l \<Rightarrow> if l \<notin> set (map (lower P) valid) then Inr False
                      else review_blanks P correct_answers (idx + 1) rest))"

definition review_is_correct ::
  "py \<Rightarrow> catalog \<Rightarrow> int \<Rightarrow> question \<Rightarrow> json \<Rightarrow> error + bool" where
  "review_is_correct P cat qid question user_answer =
     (case q_type question of
        MULTIPLE_CHOICE \<Rightarrow>
          (case mc_questions cat qid of
             None \<Rightarrow> Inl DoesNotExist
           | Some mcq \<Rightarrow> set_equals_choices user_answer (get_correct_choices mcq))
      | FILL_BLANK \<Rightarrow>
          (case fb_questions cat qid of
             None \<Rightarrow> Inl DoesNotExist
           | Some fbq \<Rightarrow>
               (case py_iter user_answer of
                  Inl e \<Rightarrow> Inl e
                | Inr elems \<Rightarrow> review_blanks P (get_correct_answers fbq) 0 elems))
      | _ \<Rightarrow> Inr False)"

text \<open>
  \<open>submit_answer\<close>; \<open>pk\<close> is the question slide and \<open>data\<close> the decoded body of the request.
  The view is not atomic: what was written before an exception stays written, so the store
  is returned beside the error.
\<close>

definition submit_answer ::
  "py \<Rightarrow> catalog \<Rightarrow> int \<Rightarrow> store \<Rightarrow> int \<Rightarrow> int \<Rightarrow> int \<Rightarrow> json
     \<Rightarrow> (error + lesson_review_question_attempt) \<times> store" where
  "submit_answer P cat now st uid pk review_pk data =
     (case question_slides cat pk of
        None \<Rightarrow> (Inl Http404, st)
      | Some question_slide \<Rightarrow>
     (case reviews st review_pk of
        None \<Rightarrow> (Inl Http404, st)
      | Some review \<Rightarrow>
          if r_user review \<noteq> uid then (Inl Http404, st)
          else
     (case submission_serializer P data of
        None \<Rightarrow> (Inl Http400, st)
      | Some (user_answer, lesson_id) \<Rightarrow>
     (case questions cat (qs_question question_slide) of
        None \<Rightarrow> (Inl DoesNotExist, st)
      | Some question \<Rightarrow>
     (case review_is_correct P cat (qs_question question_slide) question user_answer of
        Inl e \<Rightarrow> (Inl e, st)
      | Inr is_correct \<Rightarrow>
          (let xp_earned = (if is_correct then q_xp_available question else 0);
               attempt = \<lparr>ra_review = review_pk, ra_question_slide = pk,
                          ra_user_answer = user_answer, ra_is_correct = is_correct,
                          ra_xp_earned = xp_earned\<rparr>;
               st1 = st\<lparr>review_attempts := review_attempts st @ [attempt]\<rparr>;
               review1 = (if is_correct then review\<lparr>r_score := r_score review + 1\<rparr> else review);
               total_attempts =
                 int (length (filter (\<lambda>a. ra_review a = review_pk) (review_attempts st1)))
           in if r_total_possible review1 = 0 then (Inl ZeroDivisionError, st1)
              else
                (let review2 = review1\<lparr>r_completion_percentage :=
                                 (of_int total_attempts / of_int (r_total_possible review1)) * 100\<rparr>
                 in if total_attempts \<ge> r_total_possible review2
                    then (Inr attempt,
                          st1\<lparr>xp_transactions := xp_transactions st1 @
                                 [xp_row uid xp_earned ''review'' review_pk],
                               reviews := (reviews st1)
                                 (review_pk \<mapsto> review2\<lparr>r_completion_time := Some now\<rparr>)\<rparr>)
                    else (Inr attempt, st1\<lparr>reviews := (reviews st1)(review_pk \<mapsto> review2)\<rparr>))))))))"

section \<open>Runs of the lesson pipeline\<close>

text \<open>The \<open>UserXP\<close> rows of a user and their sum, which the specification calls the
  authoritative total; the rows awarded to a user for completing a lesson, and their sum.\<close>

definition ledger_total :: "store \<Rightarrow> int \<Rightarrow> int" where
  "ledger_total st uid =
     sum_list (map tx_amount (filter (\<lambda>t. tx_user t = uid) (xp_transactions st)))"

definition lesson_rows :: "store \<Rightarrow> int \<Rightarrow> int \<Rightarrow> reward_transaction list" where
  "lesson_rows st uid lid =
     filter (\<lambda>t. tx_user t = uid \<and> tx_source_type t = ''lesson'' \<and> tx_object_id t = Some lid)
            (xp_transactions st)"



definition review_rows :: "store \<Rightarrow> int \<Rightarrow> reward_transaction list" where
  "review_rows st rid =
     filter (\<lambda>t. tx_source_type t = ''review'' \<and> tx_object_id t = Some rid) (xp_transactions st)"





section \<open>A small catalogue and store for the examples\<close>

text \<open>Question 1 is the multiple-choice question of the specification's scenario (correct
  choices 2 and 5, 50 XP, 10 jems); question 2 is a fill-in-the-blank question whose blank 0
  accepts \<open>paris\<close>; question 3 is a drag-and-drop question; question 4 is a single-selection
  multiple-choice question whose correct choice is 2. User 7 has never been active.

  \<open>ex_py\<close> gives the library functions on the arguments that the examples reach: \<open>int("0")\<close>,
  \<open>int("1")\<close> and \<open>int("x")\<close>, which fails. The examples have ASCII strings and integer
  lesson ids only, so they reach no other field.\<close>

definition ex_py :: py where
  "ex_py = \<lparr>int_of_str = (\<lambda>s. if s = ''0'' then Some 0 else if s = ''1'' then Some 1 else None),
            repr = (\<lambda>v. []),
            unicode_lower = (\<lambda>s. s),
            integer_of = (\<lambda>v. None)\<rparr>"

text \<open>The body \<open>{"answer": answer, "lesson": 3}\<close> of a request.\<close>

definition ex_body :: "json \<Rightarrow> json" where
  "ex_body answer = JDict [(''answer'', answer), (''lesson'', JInt 3)]"

definition ex_mcq :: multiple_choice_question where
  "ex_mcq = \<lparr>is_multiple_selection = True,
             choices = [\<lparr>ch_id = 1, ch_is_correct = False\<rparr>, \<lparr>ch_id = 2, ch_is_correct = True\<rparr>,
                        \<lparr>ch_id = 5, ch_is_correct = True\<rparr>]\<rparr>"

definition ex_single :: multiple_choice_question where
  "ex_single = \<lparr>is_multiple_selection = False,
                choices = [\<lparr>ch_id = 1, ch_is_correct = False\<rparr>, \<lparr>ch_id = 2, ch_is_correct = True\<rparr>]\<rparr>"

definition ex_fbq :: "bool \<Rightarrow> fill_blank_question" where
  "ex_fbq cs = \<lparr>case_sensitive = cs, answers = [\<lparr>blank_index = 0, fba_text = ''paris''\<rparr>]\<rparr>"

definition ex_ddq :: drag_drop_question where
  "ex_ddq = \<lparr>mappings = [\<lparr>target = 1, draggable_item = 2\<rparr>]\<rparr>"

definition ex_question :: "question_type \<Rightarrow> question" where
  "ex_question t = \<lparr>q_type = t, q_jems = 10, q_xp_available = 50, q_explanation = []\<rparr>"

definition ex_cat :: catalog where
  "ex_cat = \<lparr>questions = [1 \<mapsto> ex_question MULTIPLE_CHOICE, 2 \<mapsto> ex_question FILL_BLANK,
                          3 \<mapsto> ex_question DRAG_DROP, 4 \<mapsto> ex_question MULTIPLE_CHOICE],
             mc_questions = [1 \<mapsto> ex_mcq, 4 \<mapsto> ex_single],
             fb_questions = [2 \<mapsto> ex_fbq False],
             dd_questions = [3 \<mapsto> ex_ddq],
             ro_questions = Map.empty,
             lessons = [\<lparr>l_id = 3, l_xp_available = 100, l_is_published = True, l_course = 1\<rparr>],
             slides = [\<lparr>s_id = 1, s_lesson = 3, s_is_required = True\<rparr>,
                       \<lparr>s_id = 2, s_lesson = 3, s_is_required = True\<rparr>],
             question_slides = [1 \<mapsto> \<lparr>qs_question = 1\<rparr>]\<rparr>"

definition ex_user :: custom_user where
  "ex_user = \<lparr>u_jems = 5, u_total_xp = 0, u_streak_days = 0, u_last_activity = None\<rparr>"

definition ex_store :: store where
  "ex_store = \<lparr>users = [7 \<mapsto> ex_user], attempts = [], xp_transactions = [],
               jem_transactions = [], slide_progress = [], lesson_progress = Map.empty,
               enrollments = Map.empty, reviews = Map.empty, review_attempts = []\<rparr>"

text \<open>The store after user 7 has answered question 1 in lesson 3 once, correctly.\<close>

definition ex_store2 :: store where
  "ex_store2 = ex_store\<lparr>attempts :=
      [\<lparr>uqa_user = 7, uqa_question = 1, uqa_lesson = 3,
        uqa_user_answer = JList [JInt 5, JInt 2], uqa_is_correct = True,
        uqa_attempt_number = 1, uqa_jems_earned = 10\<rparr>]\<rparr>"

text \<open>User 7 with a streak of 3 days, last active at second 1000 (day 0).\<close>

definition ex_store3 :: store where
  "ex_store3 = ex_store\<lparr>users := [7 \<mapsto> ex_user\<lparr>u_streak_days := 3, u_last_activity := Some 1000\<rparr>]\<rparr>"

text \<open>The streak of a user in the store that a request leaves behind.\<close>

definition streak_of :: "error + response \<times> store \<Rightarrow> int \<Rightarrow> int option" where
  "streak_of res uid =
     (case res of Inl e \<Rightarrow> None | Inr (resp, st) \<Rightarrow> map_option u_streak_days (users st uid))"

text \<open>Lesson 3 of the example has the two required slides 1 and 2 and 100 XP. In
  \<open>ex_store4\<close> user 7 has completed both; in \<open>ex_store5\<close> the user has a review of
  one question.\<close>

definition ex_lesson :: lesson where
  "ex_lesson = \<lparr>l_id = 3, l_xp_available = 100, l_is_published = True, l_course = 1\<rparr>"

definition ex_store4 :: store where
  "ex_store4 = ex_store\<lparr>slide_progress :=
      [\<lparr>usp_user = 7, usp_slide = 1, usp_is_completed = True\<rparr>,
       \<lparr>usp_user = 7, usp_slide = 2, usp_is_completed = True\<rparr>]\<rparr>"

definition ex_store5 :: store where
  "ex_store5 = ex_store\<lparr>reviews :=
      [1 \<mapsto> \<lparr>r_user = 7, r_lesson = 3, r_score = 0, r_total_possible = 1,
              r_completion_percentage = 0, r_completion_time = None\<rparr>]\<rparr>"




section \<open>Verified properties\<close>

subsection \<open>Rewards of a submission\<close>

lemma max_floor_pos: "0 < max (10::int) x" "0 < max (1::int) x"
  by simp_all

lemma ex_eval_mcq:
  "evaluate_answer ex_py ex_cat 1 (ex_question MULTIPLE_CHOICE) (JList [JInt a, JInt b])
     = Inr (sort [a, b] = [2, 5], if sort [a, b] = [2, 5] then correct_feedback ''Correct!'' [] feedback0 else set_message ''Incorrect. Try again!'' feedback0)"
  by (simp add: evaluate_answer_def ex_cat_def ex_question_def validate_multiple_choice_def
        ex_mcq_def get_correct_choices_def)

lemma ex_body_accepted:
  "answer \<noteq> JNull \<Longrightarrow> submission_serializer ex_py (ex_body answer) = Some (answer, 3)"
  by (simp add: submission_serializer_def ex_body_def)

text \<open>
  Claim C1. Whenever the request is well formed (the user, the question and the lesson
  exist, the serializer accepts the body and the evaluator returns a verdict), \<open>create\<close>
  answers, and: a correct submission
  with no prior attempt for (user, question, lesson) is awarded the question's full
  \<open>xp_available\<close> and \<open>jems\<close>; a correct submission that is the \<open>N\<close>th attempt, \<open>N - 1 > 0\<close>
  prior ones, is awarded \<open>max(10, xp_available // N)\<close> XP and \<open>max(1, jems // N)\<close> jems;
  an incorrect submission is awarded 0 and 0. The amounts are those of the response, of
  the attempt row and of the ledger rows that are appended.
\<close>

theorem create_rewards:
  assumes u: "users st uid = Some user"
    and q: "questions cat qid = Some q"
    and s: "submission_serializer P data = Some (answer, lid)"
    and ev: "evaluate_answer P cat qid q answer = Inr (is_correct, fb)"
    and l: "list_ex (\<lambda>l. l_id l = lid) (lessons cat)"
  shows "\<exists>resp st'. create P cat now today st uid qid data = Inr (resp, st')
     \<and> uqa_is_correct (resp_attempt resp) = is_correct
     \<and> resp_xp_earned resp =
         (if is_correct
          then (if attempt_count st uid qid lid = 0 then q_xp_available q
                else max 10 (q_xp_available q div (attempt_count st uid qid lid + 1)))
          else 0)
     \<and> resp_jems_earned resp =
         (if is_correct
          then (if attempt_count st uid qid lid = 0 then q_jems q
                else max 1 (q_jems q div (attempt_count st uid qid lid + 1)))
          else 0)
     \<and> uqa_jems_earned (resp_attempt resp) = resp_jems_earned resp
     \<and> xp_transactions st' = xp_transactions st @
           (if resp_xp_earned resp > 0
            then [\<lparr>tx_user = uid, tx_amount = resp_xp_earned resp, tx_source_type = ''question'',
                    tx_content_type = Some ''question'', tx_object_id = Some qid\<rparr>] else [])
     \<and> jem_transactions st' = jem_transactions st @
           (if resp_jems_earned resp > 0
            then [\<lparr>tx_user = uid, tx_amount = resp_jems_earned resp, tx_source_type = ''question'',
                    tx_content_type = Some ''question'', tx_object_id = Some qid\<rparr>] else [])"
  using u q s ev l
  by (simp add: create_def earned_def update_gamification_def Let_def max_floor_pos
           split: prod.splits)

theorem create_rewards_witness:
  "(\<exists>resp st'. create ex_py ex_cat 1000 0 ex_store 7 1 (ex_body (JList [JInt 5, JInt 2])) = Inr (resp, st')
       \<and> resp_xp_earned resp = 50 \<and> resp_jems_earned resp = 10)
   \<and> (\<exists>resp st'. create ex_py ex_cat 2000 0 ex_store2 7 1 (ex_body (JList [JInt 2, JInt 5])) = Inr (resp, st')
       \<and> resp_xp_earned resp = 25 \<and> resp_jems_earned resp = 5)"
proof -
  have u: "users ex_store 7 = Some ex_user" "users ex_store2 7 = Some ex_user"
    by (simp_all add: ex_store_def ex_store2_def)
  have q: "questions ex_cat 1 = Some (ex_question MULTIPLE_CHOICE)"
    by (simp add: ex_cat_def)
  have s1: "submission_serializer ex_py (ex_body (JList [JInt 5, JInt 2])) = Some (JList [JInt 5, JInt 2], 3)"
    by (simp add: ex_body_accepted)
  have s2: "submission_serializer ex_py (ex_body (JList [JInt 2, JInt 5])) = Some (JList [JInt 2, JInt 5], 3)"
    by (simp add: ex_body_accepted)
  have e1: "evaluate_answer ex_py ex_cat 1 (ex_question MULTIPLE_CHOICE) (JList [JInt 5, JInt 2])
              = Inr (True, correct_feedback ''Correct!'' [] feedback0)"
    by (simp add: ex_eval_mcq)
  have e2: "evaluate_answer ex_py ex_cat 1 (ex_question MULTIPLE_CHOICE) (JList [JInt 2, JInt 5])
              = Inr (True, correct_feedback ''Correct!'' [] feedback0)"
    by (simp add: ex_eval_mcq)
  have l: "list_ex (\<lambda>l. l_id l = 3) (lessons ex_cat)"
    by (simp add: ex_cat_def)
  have n: "attempt_count ex_store 7 1 3 = 0" "attempt_count ex_store2 7 1 3 = 1"
    by (simp_all add: attempt_count_def ex_store_def ex_store2_def)
  from create_rewards [OF u(1) q s1 e1 l, of 1000 0] create_rewards [OF u(2) q s2 e2 l, of 2000 0] n
  show ?thesis
    by (auto simp add: ex_question_def)
qed

subsection \<open>Multiple choice\<close>

lemma sort_eq_iff_mset: "sort xs = sort ys \<longleftrightarrow> mset xs = mset (ys :: int list)"
proof
  assume "sort xs = sort ys"
  then have "mset (sort xs) = mset (sort ys)" by simp
  then show "mset xs = mset ys" by simp
next
  assume "mset xs = mset ys"
  then have "mset (sort ys) = mset xs" by simp
  then show "sort xs = sort ys"
    by (rule properties_for_sort) simp
qed

text \<open>
  Claim C7, as the code has it. A submission to a multiple-choice question is judged correct
  if and only if it is a list, it has at most one element when the question is not
  \<open>is_multiple_selection\<close>, \<open>int()\<close> succeeds on every element, and the converted list is a
  permutation of the list of the choices flagged correct: the same identifiers with the
  same multiplicities, in any order. A strict subset or superset is thus incorrect, and so is
  the correct set with an identifier repeated.
\<close>

theorem validate_multiple_choice_correct:
  "fst (validate_multiple_choice P explanation q answer) \<longleftrightarrow>
     (\<exists>xs ids. answer = JList xs \<and> (is_multiple_selection q \<or> length xs \<le> 1)
        \<and> those (map (py_int P) xs) = Some ids
        \<and> mset ids = mset (get_correct_choices q))"
  by (cases answer)
     (auto simp add: validate_multiple_choice_def Let_def sort_eq_iff_mset split: option.splits)

text \<open>The comparison is not one of sets: \<open>[2, 5, 5]\<close> and the correct choices \<open>[2, 5]\<close> are
  equal as sets, and the submission is judged incorrect.\<close>

theorem validate_multiple_choice_set_counterexample:
  "set [2, 5, 5] = set (get_correct_choices ex_mcq)
   \<and> \<not> fst (validate_multiple_choice ex_py [] ex_mcq (JList [JInt 2, JInt 5, JInt 5]))"
  by (simp add: validate_multiple_choice_def get_correct_choices_def ex_mcq_def)

subsection \<open>Fill in the blank\<close>

lemma is_blank_correct_str:
  "is_blank_correct P cs (JStr s) valid =
     Inr (if cs then s \<in> set valid else lower P s \<in> lower P ` set valid)"
  by (simp add: is_blank_correct_def)

lemma fill_blank_loop_strs:
  assumes "\<forall>(k, v) \<in> set items. \<exists>i ss s. int_of_str P k = Some i \<and> ca i = Some ss \<and> v = JStr s"
  shows "\<exists>bad. fill_blank_loop P cs ca items acc = Next (acc @ bad)
           \<and> (bad = [] \<longleftrightarrow>
                (\<forall>(k, v) \<in> set items. \<forall>i ss s. int_of_str P k = Some i \<longrightarrow> ca i = Some ss \<longrightarrow> v = JStr s
                    \<longrightarrow> (if cs then s \<in> set ss else lower P s \<in> lower P ` set ss)))"
  using assms
proof (induction items arbitrary: acc)
  case Nil
  then show ?case by simp
next
  case (Cons kv items)
  obtain k v where kv: "kv = (k, v)" by (cases kv)
  from Cons.prems kv obtain i ss s where
    h: "int_of_str P k = Some i" "ca i = Some ss" "v = JStr s" by auto
  from Cons.prems have rest: "\<forall>(k, v) \<in> set items. \<exists>i ss s. int_of_str P k = Some i \<and> ca i = Some ss \<and> v = JStr s"
    by simp
  let ?ok = "if cs then s \<in> set ss else lower P s \<in> lower P ` set ss"
  let ?acc = "if ?ok then acc else acc @ [i]"
  from Cons.IH [OF rest, of ?acc] obtain bad where
    b: "fill_blank_loop P cs ca items ?acc = Next (?acc @ bad)"
       "bad = [] \<longleftrightarrow> (\<forall>(k, v) \<in> set items. \<forall>i ss s. int_of_str P k = Some i \<longrightarrow> ca i = Some ss \<longrightarrow> v = JStr s
                    \<longrightarrow> (if cs then s \<in> set ss else lower P s \<in> lower P ` set ss))"
    by blast
  have step: "fill_blank_loop P cs ca (kv # items) acc = fill_blank_loop P cs ca items ?acc"
    using h kv by (simp add: is_blank_correct_str)
  show ?case
  proof (cases ?ok)
    case True
    then have "fill_blank_loop P cs ca (kv # items) acc = Next (acc @ bad)"
      using step b(1) by simp
    moreover have "bad = [] \<longleftrightarrow> (\<forall>(k, v) \<in> set (kv # items). \<forall>i ss s. int_of_str P k = Some i \<longrightarrow> ca i = Some ss \<longrightarrow> v = JStr s
                    \<longrightarrow> (if cs then s \<in> set ss else lower P s \<in> lower P ` set ss))"
      using b(2) True h kv by auto
    ultimately show ?thesis by blast
  next
    case False
    then have "fill_blank_loop P cs ca (kv # items) acc = Next (acc @ (i # bad))"
      using step b(1) by simp
    moreover have "i # bad = [] \<longleftrightarrow> (\<forall>(k, v) \<in> set (kv # items). \<forall>i ss s. int_of_str P k = Some i \<longrightarrow> ca i = Some ss \<longrightarrow> v = JStr s
                    \<longrightarrow> (if cs then s \<in> set ss else lower P s \<in> lower P ` set ss))"
      using False h kv by auto
    ultimately show ?thesis by blast
  qed
qed

lemma lower_Paris: "lower P ''Paris'' = ''paris''" "lower P ''paris'' = ''paris''"
  by (simp_all add: lower_def lower_char_def is_ascii_def)

lemma ex_fbq_answers: "get_correct_answers (ex_fbq cs) = [0 \<mapsto> [''paris'']]"
  by (simp add: get_correct_answers_def ex_fbq_def)

text \<open>
  Claim C8. For a submission whose blanks all name an index of the answer key and carry a
  string, the verdict of \<open>_validate_fill_blank\<close> is that every submitted blank matches: when
  \<open>case_sensitive\<close> is false, the lower-cased string is among the lower-cased accepted
  strings of its index, where lower-casing is Python's \<open>str.lower()\<close> on both sides (on
  ASCII strings the letters \<open>A\<close> to \<open>Z\<close>, on other strings the Unicode lower-casing, whatever
  it is); when it is true, the string itself is among the accepted strings. At the witness,
  \<open>Paris\<close> matches the stored \<open>paris\<close> with the flag off and does not with the flag on.
\<close>

theorem validate_fill_blank_matching:
  assumes "\<forall>(k, v) \<in> set items. \<exists>i ss s. int_of_str P k = Some i \<and> get_correct_answers q i = Some ss \<and> v = JStr s"
  shows "\<exists>fb. validate_fill_blank P explanation q (JDict items) =
           Inr ((\<forall>(k, v) \<in> set items. \<forall>i ss s.
                    int_of_str P k = Some i \<longrightarrow> get_correct_answers q i = Some ss \<longrightarrow> v = JStr s
                    \<longrightarrow> (if case_sensitive q then s \<in> set ss
                         else lower P s \<in> lower P ` set ss)), fb)"
proof -
  let ?A = "\<forall>(k, v) \<in> set items. \<forall>i ss s.
                    int_of_str P k = Some i \<longrightarrow> get_correct_answers q i = Some ss \<longrightarrow> v = JStr s
                    \<longrightarrow> (if case_sensitive q then s \<in> set ss else lower P s \<in> lower P ` set ss)"
  from fill_blank_loop_strs [OF assms, of "case_sensitive q" "[]"] obtain bad where
    b: "fill_blank_loop P (case_sensitive q) (get_correct_answers q) items [] = Next ([] @ bad)"
       "bad = [] \<longleftrightarrow> ?A"
    by blast
  show ?thesis
  proof (cases "bad = []")
    case True
    with b have "?A" by blast
    with b(1) True show ?thesis by (simp add: validate_fill_blank_def)
  next
    case False
    with b have "\<not> ?A" by blast
    with b(1) False show ?thesis by (simp add: validate_fill_blank_def)
  qed
qed

theorem validate_fill_blank_matching_witness:
  "(\<exists>fb. validate_fill_blank ex_py [] (ex_fbq False) (JDict [(''0'', JStr ''Paris'')]) = Inr (True, fb))
   \<and> (\<exists>fb. validate_fill_blank ex_py [] (ex_fbq True) (JDict [(''0'', JStr ''Paris'')]) = Inr (False, fb))"
proof -
  have h: "\<forall>(k, v) \<in> set [(''0'', JStr ''Paris'')]. \<exists>i ss s.
             int_of_str ex_py k = Some i \<and> get_correct_answers (ex_fbq cs) i = Some ss \<and> v = JStr s" for cs
    by (simp add: ex_py_def ex_fbq_answers)
  have cs: "case_sensitive (ex_fbq b) = b" for b by (simp add: ex_fbq_def)
  from validate_fill_blank_matching [OF h [of False], of "[]"]
    validate_fill_blank_matching [OF h [of True], of "[]"]
  show ?thesis
    by (simp add: ex_py_def ex_fbq_answers cs lower_Paris)
qed

subsection \<open>Empty mappings\<close>

text \<open>
  Claim C10. For a fill-in-the-blank or a drag-and-drop question, the empty mapping \<open>{}\<close> is
  judged correct: the loop over the submitted items has nothing to reject. On a first
  attempt \<open>create\<close> then awards the question's full \<open>xp_available\<close> and \<open>jems\<close>, and the
  award is credited: the attempt row is written as correct with the full jems, the
  \<open>UserXP\<close> and \<open>UserJem\<close> rows of the full amounts are appended to the ledgers (a row
  is written when its amount is positive), and the counters \<open>total_xp\<close> and \<open>jems\<close> of the
  user grow by the same amounts.
\<close>

theorem empty_mapping_correct:
  assumes u: "users st uid = Some user"
    and q: "questions cat qid = Some q"
    and t: "q_type q = FILL_BLANK \<and> fb_questions cat qid = Some fq
            \<or> q_type q = DRAG_DROP \<and> dd_questions cat qid = Some dq"
    and s: "submission_serializer P data = Some (JDict [], lid)"
    and l: "list_ex (\<lambda>l. l_id l = lid) (lessons cat)"
    and n: "attempt_count st uid qid lid = 0"
  shows "evaluate_answer P cat qid q (JDict []) =
           Inr (True, correct_feedback ''Correct!'' (q_explanation q) feedback0)
     \<and> (\<exists>resp st' user'. create P cat now today st uid qid data = Inr (resp, st')
           \<and> resp_attempt resp =
               \<lparr>uqa_user = uid, uqa_question = qid, uqa_lesson = lid, uqa_user_answer = JDict [],
                 uqa_is_correct = True, uqa_attempt_number = 1, uqa_jems_earned = q_jems q\<rparr>
           \<and> resp_xp_earned resp = q_xp_available q
           \<and> resp_jems_earned resp = q_jems q
           \<and> attempts st' = attempts st @ [resp_attempt resp]
           \<and> xp_transactions st' = xp_transactions st @
               (if 0 < q_xp_available q
                then [\<lparr>tx_user = uid, tx_amount = q_xp_available q, tx_source_type = ''question'',
                        tx_content_type = Some ''question'', tx_object_id = Some qid\<rparr>] else [])
           \<and> jem_transactions st' = jem_transactions st @
               (if 0 < q_jems q
                then [\<lparr>tx_user = uid, tx_amount = q_jems q, tx_source_type = ''question'',
                        tx_content_type = Some ''question'', tx_object_id = Some qid\<rparr>] else [])
           \<and> users st' uid = Some user'
           \<and> u_total_xp user' = u_total_xp user + max 0 (q_xp_available q)
           \<and> u_jems user' = u_jems user + max 0 (q_jems q)
           \<and> resp_total_xp resp = u_total_xp user'
           \<and> resp_total_jems resp = u_jems user')"
proof -
  have ev: "evaluate_answer P cat qid q (JDict []) =
           Inr (True, correct_feedback ''Correct!'' (q_explanation q) feedback0)"
    using t by (auto simp add: evaluate_answer_def validate_fill_blank_def validate_drag_drop_def)
  have str: "u_total_xp (update_user_streak today w) = u_total_xp w"
            "u_jems (update_user_streak today w) = u_jems w" for w
    by (simp_all add: update_user_streak_def Let_def split: option.splits)
  show ?thesis
    using u q s l n ev
    by (simp add: create_def earned_def update_gamification_def Let_def str split: prod.splits)
qed

theorem empty_mapping_correct_witness:
  "(\<exists>resp st' user'. create ex_py ex_cat 1000 0 ex_store 7 2 (ex_body (JDict [])) = Inr (resp, st')
       \<and> uqa_is_correct (resp_attempt resp) \<and> resp_xp_earned resp = 50 \<and> resp_jems_earned resp = 10
       \<and> map tx_amount (xp_transactions st') = [50] \<and> map tx_amount (jem_transactions st') = [10]
       \<and> users st' 7 = Some user' \<and> u_total_xp user' = 50 \<and> u_jems user' = 15)
   \<and> (\<exists>resp st' user'. create ex_py ex_cat 1000 0 ex_store 7 3 (ex_body (JDict [])) = Inr (resp, st')
       \<and> uqa_is_correct (resp_attempt resp) \<and> resp_xp_earned resp = 50 \<and> resp_jems_earned resp = 10
       \<and> map tx_amount (xp_transactions st') = [50] \<and> map tx_amount (jem_transactions st') = [10]
       \<and> users st' 7 = Some user' \<and> u_total_xp user' = 50 \<and> u_jems user' = 15)"
proof -
  have u: "users ex_store 7 = Some ex_user" by (simp add: ex_store_def)
  have q2: "questions ex_cat 2 = Some (ex_question FILL_BLANK)"
    and q3: "questions ex_cat 3 = Some (ex_question DRAG_DROP)" by (simp_all add: ex_cat_def)
  have t2: "q_type (ex_question FILL_BLANK) = FILL_BLANK \<and> fb_questions ex_cat 2 = Some (ex_fbq False)
            \<or> q_type (ex_question FILL_BLANK) = DRAG_DROP \<and> dd_questions ex_cat 2 = Some ex_ddq"
    by (simp add: ex_cat_def ex_question_def)
  have t3: "q_type (ex_question DRAG_DROP) = FILL_BLANK \<and> fb_questions ex_cat 3 = Some (ex_fbq False)
            \<or> q_type (ex_question DRAG_DROP) = DRAG_DROP \<and> dd_questions ex_cat 3 = Some ex_ddq"
    by (simp add: ex_cat_def ex_question_def)
  have s: "submission_serializer ex_py (ex_body (JDict [])) = Some (JDict [], 3)"
    by (simp add: ex_body_accepted)
  have l: "list_ex (\<lambda>l. l_id l = 3) (lessons ex_cat)" by (simp add: ex_cat_def)
  have n: "attempt_count ex_store 7 2 3 = 0" "attempt_count ex_store 7 3 3 = 0"
    by (simp_all add: attempt_count_def ex_store_def)
  have x: "xp_transactions ex_store = []" "jem_transactions ex_store = []"
    by (simp_all add: ex_store_def)
  from empty_mapping_correct [OF u q2 t2 s l n(1), of 1000 0]
    empty_mapping_correct [OF u q3 t3 s l n(2), of 1000 0]
  show ?thesis by (auto simp add: ex_question_def ex_user_def x)
qed

subsection \<open>Submissions of the wrong shape\<close>

text \<open>Each evaluator returns at the format check that the payload fails, with the message
  of that check and the verdict \<open>False\<close>.\<close>

lemma list_ex_those: "list_ex (\<lambda>x. f x = None) xs \<longleftrightarrow> those (map f xs) = None"
  by (induction xs) (auto split: option.splits)

lemma multiple_choice_format:
  "multiple_choice_format_error P mq answer = Some m
   \<Longrightarrow> validate_multiple_choice P e mq answer = (False, set_message m feedback0)"
  by (cases answer)
     (auto simp add: multiple_choice_format_error_def validate_multiple_choice_def list_ex_those
           split: if_splits option.splits)

lemma fill_blank_loop_format:
  assumes "dropWhile (\<lambda>kv. blank_key_error P ca (fst kv) = None) items = kv # rest"
    and "cs \<or> list_all (\<lambda>kv. is_str (snd kv)) (takeWhile (\<lambda>kv. blank_key_error P ca (fst kv) = None) items)"
    and "blank_key_error P ca (fst kv) = Some m"
  shows "fill_blank_loop P cs ca items acc = Return (False, set_message m feedback0)"
  using assms
proof (induction items arbitrary: acc)
  case Nil
  then show ?case by simp
next
  case (Cons x items)
  obtain k v where x: "x = (k, v)" by (cases x)
  show ?case
  proof (cases "blank_key_error P ca k = None")
    case True
    then obtain i valid where h: "int_of_str P k = Some i" "ca i = Some valid"
      by (auto simp add: blank_key_error_def split: option.splits)
    from Cons.prems(2) True x have "cs \<or> is_str v" by auto
    then have "\<exists>ok. is_blank_correct P cs v valid = Inr ok"
      by (cases v) (auto simp add: is_blank_correct_def)
    then obtain ok where ok: "is_blank_correct P cs v valid = Inr ok" ..
    from Cons.prems True x have
      "dropWhile (\<lambda>kv. blank_key_error P ca (fst kv) = None) items = kv # rest"
      "cs \<or> list_all (\<lambda>kv. is_str (snd kv)) (takeWhile (\<lambda>kv. blank_key_error P ca (fst kv) = None) items)"
      by auto
    from Cons.IH [OF this Cons.prems(3)] h ok x show ?thesis by simp
  next
    case False
    with Cons.prems(1) x have "kv = (k, v)" by simp
    with Cons.prems(3) x show ?thesis
      by (auto simp add: blank_key_error_def split: option.splits)
  qed
qed

lemma fill_blank_format:
  "fill_blank_format_error P fq answer = Some m
   \<Longrightarrow> validate_fill_blank P e fq answer = Inr (False, set_message m feedback0)"
proof (cases answer)
  case (JDict items)
  assume a: "fill_blank_format_error P fq answer = Some m"
  let ?ok = "\<lambda>kv. blank_key_error P (get_correct_answers fq) (fst kv) = None"
  from a JDict obtain kv rest where
    d: "dropWhile ?ok items = kv # rest"
    and c: "case_sensitive fq \<or> list_all (\<lambda>kv. is_str (snd kv)) (takeWhile ?ok items)"
    and m: "blank_key_error P (get_correct_answers fq) (fst kv) = Some m"
    by (auto simp add: fill_blank_format_error_def Let_def split: list.splits if_splits)
  from fill_blank_loop_format [OF d c m] JDict show ?thesis
    by (simp add: validate_fill_blank_def)
qed (simp_all add: fill_blank_format_error_def validate_fill_blank_def)

lemma drag_drop_loop_format:
  assumes "dropWhile (\<lambda>kv. cm (fst kv) \<noteq> None) items = kv # rest"
  shows "drag_drop_loop P cm items acc =
           Return (False, set_message (''Invalid target ID: '' @ fst kv) feedback0)"
  using assms
proof (induction items arbitrary: acc)
  case Nil
  then show ?case by simp
next
  case (Cons x items)
  obtain k v where x: "x = (k, v)" by (cases x)
  show ?case
  proof (cases "cm k")
    case None
    with Cons.prems x show ?thesis by auto
  next
    case (Some valid)
    with Cons.prems x have "dropWhile (\<lambda>kv. cm (fst kv) \<noteq> None) items = kv # rest" by simp
    from Cons.IH [OF this] Some x show ?thesis by (simp add: Let_def)
  qed
qed

lemma drag_drop_format:
  "drag_drop_format_error dq answer = Some m
   \<Longrightarrow> validate_drag_drop P e dq answer = Inr (False, set_message m feedback0)"
proof (cases answer)
  case (JDict items)
  assume a: "drag_drop_format_error dq answer = Some m"
  with JDict obtain kv rest where
    d: "dropWhile (\<lambda>kv. get_correct_mappings dq (fst kv) \<noteq> None) items = kv # rest"
    and m: "m = ''Invalid target ID: '' @ fst kv"
    by (auto simp add: drag_drop_format_error_def split: list.splits)
  from drag_drop_loop_format [OF d] m JDict show ?thesis
    by (simp add: validate_drag_drop_def)
qed (simp_all add: drag_drop_format_error_def validate_drag_drop_def)

lemma reorder_format:
  "reorder_format_error answer = Some m
   \<Longrightarrow> validate_reorder P e rq answer = (False, set_message m feedback0)"
  by (cases answer) (simp_all add: reorder_format_error_def validate_reorder_def)

lemma format_error_evaluate:
  assumes "format_error P cat qid q answer = Some m"
  shows "evaluate_answer P cat qid q answer = Inr (False, set_message m feedback0)"
  using assms
  by (auto simp add: format_error_def evaluate_answer_def multiple_choice_format fill_blank_format
        drag_drop_format reorder_format split: question_type.splits option.splits)

lemma format_error_distinct:
  assumes "format_error P cat qid q answer = Some m"
  shows "m \<notin> wrong_answer_messages"
  using assms
  by (auto simp add: format_error_def multiple_choice_format_error_def fill_blank_format_error_def
        drag_drop_format_error_def reorder_format_error_def blank_key_error_def
        wrong_answer_messages_def Let_def
        split: question_type.splits option.splits json.splits if_splits list.splits)

text \<open>Conversely, a payload that passes the format checks and is evaluated without an
  exception is judged correct or gets a wrong-answer message: the format checks are the
  validation failures of the evaluators, and there is no other.\<close>

lemma fill_blank_loop_no_return:
  assumes "\<forall>kv \<in> set items. blank_key_error P ca (fst kv) = None"
  shows "fill_blank_loop P cs ca items acc \<noteq> Return r"
  using assms
proof (induction items arbitrary: acc)
  case Nil
  then show ?case by simp
next
  case (Cons x items)
  obtain k v where x: "x = (k, v)" by (cases x)
  from Cons.prems x obtain i valid where h: "int_of_str P k = Some i" "ca i = Some valid"
    by (auto simp add: blank_key_error_def split: option.splits)
  from Cons.prems have "\<forall>kv \<in> set items. blank_key_error P ca (fst kv) = None" by simp
  from Cons.IH [OF this] h x show ?case
    by (simp split: sum.splits)
qed

lemma fill_blank_loop_raise:
  assumes "\<not> list_all (\<lambda>kv. is_str (snd kv)) (takeWhile (\<lambda>kv. blank_key_error P ca (fst kv) = None) items)"
  shows "\<exists>e. fill_blank_loop P False ca items acc = Raise e"
  using assms
proof (induction items arbitrary: acc)
  case Nil
  then show ?case by simp
next
  case (Cons x items)
  obtain k v where x: "x = (k, v)" by (cases x)
  from Cons.prems x have ok: "blank_key_error P ca k = None"
    by (auto split: if_splits)
  then obtain i valid where h: "int_of_str P k = Some i" "ca i = Some valid"
    by (auto simp add: blank_key_error_def split: option.splits)
  show ?case
  proof (cases "is_str v")
    case True
    then obtain s where s: "v = JStr s" by (cases v) simp_all
    from Cons.prems x ok True have
      "\<not> list_all (\<lambda>kv. is_str (snd kv)) (takeWhile (\<lambda>kv. blank_key_error P ca (fst kv) = None) items)"
      by simp
    from Cons.IH [OF this] h x s show ?thesis
      by (simp add: is_blank_correct_def)
  next
    case False
    then have "json_lower P v = Inl AttributeError" by (cases v) simp_all
    with h x show ?thesis by (simp add: is_blank_correct_def)
  qed
qed

lemma drag_drop_loop_no_return:
  assumes "\<forall>kv \<in> set items. cm (fst kv) \<noteq> None"
  shows "\<exists>bad. drag_drop_loop P cm items acc = Next bad"
  using assms
proof (induction items arbitrary: acc)
  case Nil
  then show ?case by simp
next
  case (Cons x items)
  obtain k v where x: "x = (k, v)" by (cases x)
  from Cons.prems x obtain valid where h: "cm k = Some valid" by auto
  from Cons.prems have "\<forall>kv \<in> set items. cm (fst kv) \<noteq> None" by simp
  from Cons.IH [OF this] h x show ?case
    by (simp add: Let_def)
qed

lemma dropWhile_Nil_iff: "dropWhile p xs = [] \<longleftrightarrow> (\<forall>x \<in> set xs. p x)"
  by (induction xs) auto

lemma dropWhile_head: "dropWhile p xs = y # ys \<Longrightarrow> \<not> p y"
  using hd_dropWhile [of p xs] by auto

lemma message_wrong:
  "map_of (AList.update k v (set_message m feedback0)) ''message'' =
     (if k = ''message'' then Some v else Some (JStr m))"
  by (simp add: set_message_def feedback0_def update_conv')

lemma fill_blank_passes:
  assumes f: "fill_blank_format_error P fq answer = None"
    and v: "validate_fill_blank P e fq answer = Inr (ok, fb)"
  shows "ok \<or> map_of fb ''message'' = Some (JStr ''Incorrect. Try again!'')"
proof (cases answer)
  case (JDict items)
  let ?ok = "\<lambda>kv. blank_key_error P (get_correct_answers fq) (fst kv) = None"
  show ?thesis
  proof (cases "dropWhile ?ok items")
    case Nil
    then have "\<forall>kv \<in> set items. ?ok kv" by (simp add: dropWhile_Nil_iff)
    from fill_blank_loop_no_return [OF this] v JDict show ?thesis
      by (auto simp add: validate_fill_blank_def message_wrong split: flow.splits if_splits)
  next
    case (Cons kv rest)
    from dropWhile_head [OF Cons] have "blank_key_error P (get_correct_answers fq) (fst kv) \<noteq> None" .
    with f JDict Cons have c: "\<not> case_sensitive fq"
      and "\<not> list_all (\<lambda>kv. is_str (snd kv)) (takeWhile ?ok items)"
      by (auto simp add: fill_blank_format_error_def Let_def split: if_splits)
    from fill_blank_loop_raise [OF this(2), of "[]"] c v JDict show ?thesis
      by (auto simp add: validate_fill_blank_def)
  qed
qed (use f in \<open>simp_all add: fill_blank_format_error_def\<close>)

lemma drag_drop_passes:
  assumes f: "drag_drop_format_error dq answer = None"
    and v: "validate_drag_drop P e dq answer = Inr (ok, fb)"
  shows "ok \<or> map_of fb ''message'' = Some (JStr ''Incorrect. Try again!'')"
proof (cases answer)
  case (JDict items)
  from f JDict have "dropWhile (\<lambda>kv. get_correct_mappings dq (fst kv) \<noteq> None) items = []"
    by (simp add: drag_drop_format_error_def split: list.splits)
  then have "\<forall>kv \<in> set items. get_correct_mappings dq (fst kv) \<noteq> None"
    by (simp add: dropWhile_Nil_iff)
  from drag_drop_loop_no_return [OF this, of P "[]"] v JDict show ?thesis
    by (auto simp add: validate_drag_drop_def message_wrong split: if_splits)
qed (use f in \<open>simp_all add: drag_drop_format_error_def\<close>)

lemma multiple_choice_passes:
  assumes f: "multiple_choice_format_error P mq answer = None"
    and v: "validate_multiple_choice P e mq answer = (ok, fb)"
  shows "ok \<or> map_of fb ''message'' = Some (JStr ''Incorrect. Try again!'')"
  using f v
  by (cases answer)
     (auto simp add: multiple_choice_format_error_def validate_multiple_choice_def list_ex_those
        Let_def set_message_def feedback0_def split: if_splits option.splits)

lemma reorder_passes:
  assumes f: "reorder_format_error answer = None"
    and v: "validate_reorder P e rq answer = (ok, fb)"
  shows "ok \<or> map_of fb ''message'' = Some (JStr ''Incorrect sequence. Try again!'')"
  using f v
  by (cases answer)
     (auto simp add: reorder_format_error_def validate_reorder_def
        set_message_def feedback0_def split: if_splits)

lemma format_error_complete:
  assumes "format_error P cat qid q answer = None"
    and "evaluate_answer P cat qid q answer = Inr (ok, fb)"
    and "q_type q \<noteq> OTHER_TYPE"
  shows "ok \<or> (\<exists>m \<in> wrong_answer_messages. map_of fb ''message'' = Some (JStr m))"
proof (cases "q_type q")
  case MULTIPLE_CHOICE
  with assms show ?thesis
    by (auto simp add: format_error_def evaluate_answer_def wrong_answer_messages_def
          split: option.splits dest: multiple_choice_passes)
next
  case FILL_BLANK
  with assms show ?thesis
    by (auto simp add: format_error_def evaluate_answer_def wrong_answer_messages_def
          split: option.splits dest: fill_blank_passes)
next
  case DRAG_DROP
  with assms show ?thesis
    by (auto simp add: format_error_def evaluate_answer_def wrong_answer_messages_def
          split: option.splits dest: drag_drop_passes)
next
  case REORDER
  with assms show ?thesis
    by (auto simp add: format_error_def evaluate_answer_def wrong_answer_messages_def
          split: option.splits dest: reorder_passes)
next
  case OTHER_TYPE
  with assms show ?thesis by simp
qed

text \<open>
  Claim C2, as the code has it. A body that the serializer does not accept (no \<open>answer\<close> or
  a null one, no \<open>lesson\<close> or one that is not an integer) is rejected with HTTP 400 and
  nothing is written: there the claim holds as it is stated. A payload that the serializer
  accepts and that fails a format check of the evaluator of the question's variant is not
  rejected. It is graded incorrect; the feedback carries the message of the failed check,
  which is none of the wrong-answer messages, and nothing else; and \<open>create\<close> records the
  submission: one attempt row with \<open>is_correct = False\<close>, zero jems and the next attempt
  number is appended, no reward transaction is written and the user row is unchanged.
\<close>

theorem malformed_submission_recorded:
  assumes u: "users st uid = Some user"
    and q: "questions cat qid = Some q"
  shows "(submission_serializer P data = None
          \<longrightarrow> create P cat now today st uid qid data = Inl Http400)
     \<and> (submission_serializer P data = Some (answer, lid)
          \<and> list_ex (\<lambda>l. l_id l = lid) (lessons cat)
          \<and> format_error P cat qid q answer = Some m
          \<longrightarrow> m \<notin> wrong_answer_messages
            \<and> evaluate_answer P cat qid q answer =
                 Inr (False, [(''correct'', JBool False), (''message'', JStr m)])
            \<and> create P cat now today st uid qid data =
                 Inr (\<lparr>resp_attempt =
                         \<lparr>uqa_user = uid, uqa_question = qid, uqa_lesson = lid,
                           uqa_user_answer = answer, uqa_is_correct = False,
                           uqa_attempt_number = attempt_count st uid qid lid + 1,
                           uqa_jems_earned = 0\<rparr>,
                       resp_feedback = [(''correct'', JBool False), (''message'', JStr m)],
                       resp_xp_earned = 0, resp_jems_earned = 0,
                       resp_total_xp = u_total_xp user, resp_total_jems = u_jems user,
                       resp_streak_days = u_streak_days user\<rparr>,
                      st\<lparr>attempts := attempts st @
                         [\<lparr>uqa_user = uid, uqa_question = qid, uqa_lesson = lid,
                           uqa_user_answer = answer, uqa_is_correct = False,
                           uqa_attempt_number = attempt_count st uid qid lid + 1,
                           uqa_jems_earned = 0\<rparr>]\<rparr>))"
proof (intro conjI impI)
  assume "submission_serializer P data = None"
  with u q show "create P cat now today st uid qid data = Inl Http400"
    by (simp add: create_def)
next
  assume a: "submission_serializer P data = Some (answer, lid)
          \<and> list_ex (\<lambda>l. l_id l = lid) (lessons cat)
          \<and> format_error P cat qid q answer = Some m"
  then have fe: "format_error P cat qid q answer = Some m" by simp
  from format_error_distinct [OF fe] show "m \<notin> wrong_answer_messages" .
  from format_error_evaluate [OF fe]
  have ev: "evaluate_answer P cat qid q answer = Inr (False, set_message m feedback0)" .
  then show "evaluate_answer P cat qid q answer =
                 Inr (False, [(''correct'', JBool False), (''message'', JStr m)])"
    by (simp add: set_message_def feedback0_def)
  from u q a ev show "create P cat now today st uid qid data =
                 Inr (\<lparr>resp_attempt =
                         \<lparr>uqa_user = uid, uqa_question = qid, uqa_lesson = lid,
                           uqa_user_answer = answer, uqa_is_correct = False,
                           uqa_attempt_number = attempt_count st uid qid lid + 1,
                           uqa_jems_earned = 0\<rparr>,
                       resp_feedback = [(''correct'', JBool False), (''message'', JStr m)],
                       resp_xp_earned = 0, resp_jems_earned = 0,
                       resp_total_xp = u_total_xp user, resp_total_jems = u_jems user,
                       resp_streak_days = u_streak_days user\<rparr>,
                      st\<lparr>attempts := attempts st @
                         [\<lparr>uqa_user = uid, uqa_question = qid, uqa_lesson = lid,
                           uqa_user_answer = answer, uqa_is_correct = False,
                           uqa_attempt_number = attempt_count st uid qid lid + 1,
                           uqa_jems_earned = 0\<rparr>]\<rparr>)"
    by (simp add: create_def earned_def Let_def set_message_def feedback0_def)
qed

text \<open>The claim as stated fails: the single-selection question 4 of the example, given the
  two identifiers 1 and 2, leaves an attempt row in a store that had none.\<close>

theorem single_selection_attempt_written:
  "create ex_py ex_cat 1000 0 ex_store 7 4 (ex_body (JList [JInt 1, JInt 2])) =
     Inr (\<lparr>resp_attempt =
             \<lparr>uqa_user = 7, uqa_question = 4, uqa_lesson = 3,
               uqa_user_answer = JList [JInt 1, JInt 2], uqa_is_correct = False,
               uqa_attempt_number = 1, uqa_jems_earned = 0\<rparr>,
           resp_feedback = [(''correct'', JBool False),
                            (''message'', JStr ''Only one answer allowed for this question'')],
           resp_xp_earned = 0, resp_jems_earned = 0, resp_total_xp = 0, resp_total_jems = 5,
           resp_streak_days = 0\<rparr>,
          ex_store\<lparr>attempts :=
             [\<lparr>uqa_user = 7, uqa_question = 4, uqa_lesson = 3,
               uqa_user_answer = JList [JInt 1, JInt 2], uqa_is_correct = False,
               uqa_attempt_number = 1, uqa_jems_earned = 0\<rparr>]\<rparr>)
   \<and> attempts ex_store = []"
  by (simp add: create_def submission_serializer_def ex_body_def earned_def Let_def
        evaluate_answer_def validate_multiple_choice_def
        set_message_def feedback0_def ex_cat_def ex_store_def ex_single_def ex_question_def
        ex_user_def attempt_count_def)

theorem malformed_submission_recorded_witness:
  "create ex_py ex_cat 1000 0 ex_store2 7 2 (ex_body JNull) = Inl Http400
   \<and> create ex_py ex_cat 1000 0 ex_store2 7 2 (ex_body (JDict [(''x'', JStr ''paris'')])) =
       Inr (\<lparr>resp_attempt =
               \<lparr>uqa_user = 7, uqa_question = 2, uqa_lesson = 3,
                 uqa_user_answer = JDict [(''x'', JStr ''paris'')], uqa_is_correct = False,
                 uqa_attempt_number = 1, uqa_jems_earned = 0\<rparr>,
             resp_feedback = [(''correct'', JBool False),
                              (''message'', JStr ''Invalid blank index format: x'')],
             resp_xp_earned = 0, resp_jems_earned = 0, resp_total_xp = 0, resp_total_jems = 5,
             resp_streak_days = 0\<rparr>,
            ex_store2\<lparr>attempts := attempts ex_store2 @
               [\<lparr>uqa_user = 7, uqa_question = 2, uqa_lesson = 3,
                 uqa_user_answer = JDict [(''x'', JStr ''paris'')], uqa_is_correct = False,
                 uqa_attempt_number = 1, uqa_jems_earned = 0\<rparr>]\<rparr>)"
proof -
  have u: "users ex_store2 7 = Some ex_user" by (simp add: ex_store2_def ex_store_def)
  have q: "questions ex_cat 2 = Some (ex_question FILL_BLANK)" by (simp add: ex_cat_def)
  have s0: "submission_serializer ex_py (ex_body JNull) = None"
    by (simp add: submission_serializer_def ex_body_def)
  have s1: "submission_serializer ex_py (ex_body (JDict [(''x'', JStr ''paris'')])) =
              Some (JDict [(''x'', JStr ''paris'')], 3)"
    by (simp add: ex_body_accepted)
  have l: "list_ex (\<lambda>l. l_id l = 3) (lessons ex_cat)" by (simp add: ex_cat_def)
  have f: "format_error ex_py ex_cat 2 (ex_question FILL_BLANK) (JDict [(''x'', JStr ''paris'')]) =
             Some ''Invalid blank index format: x''"
    by (simp add: format_error_def fill_blank_format_error_def blank_key_error_def ex_cat_def
          ex_question_def ex_py_def)
  have n: "attempt_count ex_store2 7 2 3 = 0"
    by (simp add: attempt_count_def ex_store2_def ex_store_def)
  from malformed_submission_recorded [OF u q, of ex_py "ex_body JNull" 1000 0] s0
  have a: "create ex_py ex_cat 1000 0 ex_store2 7 2 (ex_body JNull) = Inl Http400"
    by blast
  from malformed_submission_recorded [OF u q, of ex_py "ex_body (JDict [(''x'', JStr ''paris'')])" 1000 0
         "JDict [(''x'', JStr ''paris'')]" 3 "''Invalid blank index format: x''"] s1 l f n a
  show ?thesis
    by (simp add: ex_user_def)
qed

subsection \<open>Attempt numbers of submissions handled one after the other\<close>

text \<open>A submission that is answered appends one attempt, numbered with the count of the
  earlier attempts of its (user, question, lesson) plus one, and raises that count by one.\<close>

lemma create_attempt_number:
  assumes "create P cat now today st uid qid data = Inr (resp, st')"
    and "submission_serializer P data = Some (answer, lid)"
  shows "attempts st' = attempts st @ [resp_attempt resp]
       \<and> uqa_attempt_number (resp_attempt resp) = attempt_count st uid qid lid + 1
       \<and> attempt_count st' uid qid lid = attempt_count st uid qid lid + 1"
  using assms
  by (auto simp add: create_def Let_def update_gamification_def attempt_count_def
        split: option.splits sum.splits prod.splits if_splits)

subsection \<open>The streak\<close>

text \<open>
  Claim C6 at two inputs, with the server's date equal to the UTC date of the clock.
  \<open>create\<close> sets \<open>last_activity\<close> to now at line 189, before \<open>_update_user_streak\<close> reads
  it at line 422: a user who had never been active keeps the streak 0 (the claim: 1), and a
  user whose last activity was the day before keeps the streak 3 (the claim: 4).
\<close>

theorem streak_ignores_prior_activity:
  "streak_of (create ex_py ex_cat 1000 (date_of 1000) ex_store 7 1
                (ex_body (JList [JInt 5, JInt 2]))) 7
     = Some 0
   \<and> streak_of (create ex_py ex_cat 87400 (date_of 87400) ex_store3 7 1
                  (ex_body (JList [JInt 5, JInt 2]))) 7
     = Some 3
   \<and> date_of 87400 - date_of 1000 = 1"
  by (simp add: create_def submission_serializer_def ex_body_def earned_def Let_def evaluate_answer_def validate_multiple_choice_def
        set_message_def feedback0_def correct_feedback_def ex_cat_def ex_store_def ex_store3_def
        ex_mcq_def ex_question_def ex_user_def attempt_count_def get_correct_choices_def
        update_gamification_def update_user_streak_def date_of_def streak_of_def)

subsection \<open>The completion bonus of a lesson\<close>




lemma add_total_xp_keeps:
  "xp_transactions (add_total_xp u a st) = xp_transactions st"
  "lesson_progress (add_total_xp u a st) = lesson_progress st"
  "slide_progress (add_total_xp u a st) = slide_progress st"
  "enrollments (add_total_xp u a st) = enrollments st"
  by (simp_all add: add_total_xp_def split: option.splits)

lemma lesson_rows_add_total_xp [simp]:
  "lesson_rows (add_total_xp u a st) uid lid = lesson_rows st uid lid"
  by (simp add: lesson_rows_def add_total_xp_keeps)

lemma lesson_rows_upd [simp]:
  "lesson_rows (st\<lparr>lesson_progress := x\<rparr>) uid lid = lesson_rows st uid lid"
  "lesson_rows (st\<lparr>slide_progress := y\<rparr>) uid lid = lesson_rows st uid lid"
  "lesson_rows (st\<lparr>enrollments := z\<rparr>) uid lid = lesson_rows st uid lid"
  by (simp_all add: lesson_rows_def)






lemma xp_row_sel [simp]:
  "tx_user (xp_row u a src oid) = u" "tx_amount (xp_row u a src oid) = a"
  "tx_source_type (xp_row u a src oid) = src" "tx_object_id (xp_row u a src oid) = Some oid"
  by (simp_all add: xp_row_def)














subsection \<open>The cached XP counter\<close>

text \<open>The question submission and the lesson-complete endpoint add to \<open>total_xp\<close> what they
  add to the ledger of the user.\<close>

lemma create_keeps_counter:
  assumes "create P cat now today st uid qid data = Inr (resp, st')"
    and "users st uid = Some user"
  shows "\<exists>user'. users st' uid = Some user'
       \<and> u_total_xp user' - u_total_xp user = ledger_total st' uid - ledger_total st uid"
  using assms
  by (auto simp add: create_def Let_def update_gamification_def update_user_streak_def
        ledger_total_def split: option.splits sum.splits prod.splits if_splits)

lemma ledger_total_append:
  "ledger_total (st\<lparr>xp_transactions := xp_transactions st @ [xp_row u a src oid]\<rparr>) uid
     = ledger_total st uid + (if u = uid then a else 0)"
  by (simp add: ledger_total_def)

lemma ledger_total_add_total_xp [simp]:
  "ledger_total (add_total_xp u a st) uid = ledger_total st uid"
  by (simp add: ledger_total_def add_total_xp_keeps)

lemma ledger_total_upd [simp]:
  "ledger_total (st\<lparr>lesson_progress := x\<rparr>) uid = ledger_total st uid"
  "ledger_total (st\<lparr>enrollments := z\<rparr>) uid = ledger_total st uid"
  "ledger_total (st\<lparr>users := w\<rparr>) uid = ledger_total st uid"
  by (simp_all add: ledger_total_def)

lemma lesson_complete_keeps_counter:
  assumes "users st uid = Some user"
  shows "\<exists>user'. users (snd (lesson_complete cat now st uid lid)) uid = Some user'
       \<and> u_total_xp user' - u_total_xp user
           = ledger_total (snd (lesson_complete cat now st uid lid)) uid - ledger_total st uid"
  using assms
  by (auto simp add: lesson_complete_def update_course_progress_def Let_def add_total_xp_def
        ledger_total_def xp_row_def split: option.splits)

text \<open>
  Claim C5 at an input. User 7 has completed both required slides of lesson 3 and has no
  ledger row and \<open>total_xp = 0\<close>. \<open>_update_lesson_progress\<close> appends the lesson's 100 XP to
  the ledger and leaves \<open>total_xp\<close> at 0: the counter no longer equals the sum of the
  user's transactions.
\<close>

theorem lesson_bonus_skips_total_xp:
  "ledger_total ex_store4 7 = 0
   \<and> map_option u_total_xp (users ex_store4 7) = Some 0
   \<and> ledger_total (update_lesson_progress ex_cat 5000 ex_store4 7 ex_lesson) 7 = 100
   \<and> map_option u_total_xp (users (update_lesson_progress ex_cat 5000 ex_store4 7 ex_lesson) 7)
       = Some 0"
  by (simp add: update_lesson_progress_def Let_def ledger_total_def ex_store4_def ex_store_def
        ex_cat_def ex_lesson_def ex_user_def required_slides_def completed_slides_def xp_row_def)

subsection \<open>Completion of a review\<close>

text \<open>
  Claim C4 at an input. The review 1 of user 7 has one question. The first submission, at
  time 100, completes it: the completion time is 100 and one review transaction is written.
  A second submission to the same review, at time 200, overwrites the completion time with
  200 and writes a second review transaction.
\<close>

theorem review_completion_repeats:
  "map_option r_completion_time
      (reviews (snd (submit_answer ex_py ex_cat 100 ex_store5 7 1 1
                       (ex_body (JList [JInt 2, JInt 5])))) 1)
     = Some (Some 100)
   \<and> map_option r_completion_time
      (reviews (snd (submit_answer ex_py ex_cat 200
                 (snd (submit_answer ex_py ex_cat 100 ex_store5 7 1 1
                         (ex_body (JList [JInt 2, JInt 5]))))
                 7 1 1 (ex_body (JList [JInt 2, JInt 5])))) 1)
     = Some (Some 200)
   \<and> review_rows (snd (submit_answer ex_py ex_cat 200
                 (snd (submit_answer ex_py ex_cat 100 ex_store5 7 1 1
                         (ex_body (JList [JInt 2, JInt 5]))))
                 7 1 1 (ex_body (JList [JInt 2, JInt 5])))) 1
     = [xp_row 7 50 ''review'' 1, xp_row 7 50 ''review'' 1]"
  by (simp add: submit_answer_def submission_serializer_def ex_body_def Let_def review_is_correct_def set_equals_choices_def
        review_rows_def ex_store5_def ex_store_def ex_cat_def ex_question_def ex_mcq_def
        get_correct_choices_def xp_row_def)

end
